theory Spec2Isabelle
  imports Main "HOL-Library.Char_ord" "HOL-Library.List_Lexorder" "HOL-Library.AList"
    "HOL-Library.Sublist"
begin

section \<open>Pseudobulk export and peak calling (pycisTopic/pseudobulkPeakCalling.py)\<close>

text \<open>
  The module is glue code over pyranges, pandas, ray and the MACS2 binary. The embedding
  keeps the module's own control flow, string handling and dictionary handling, and puts
  everything the libraries and the operating system decide into an explicit \<open>world\<close>:
  what a fragments file or a narrowPeak file reads as, which paths exist, what the
  subprocess answers. Every effect of a call (a log line, a read, a written file, a
  subprocess) is appended to the world's trace, in program order.
\<close>

subsection \<open>Python values and exceptions\<close>

text \<open>
  What a file operation of the libraries can raise (\<open>pr.read_bed\<close>, \<open>pd.read_csv\<close>,
  \<open>os.makedirs\<close>): no such file, a file without content, a file that does not parse.
\<close>

datatype file_error = FileNotFoundError | EmptyDataError | ParserError

text \<open>
  The exceptions the module can end with. \<open>NameError\<close> also stands for its subclass
  \<open>UnboundLocalError\<close>; \<open>RuntimeError\<close> carries the three fields that \<open>callpeak\<close> formats
  into its message (command, return code, captured output); \<open>OSError\<close> carries the
  message of the operating system; \<open>FileError\<close> is an exception of a file operation,
  passed on as the library raised it.
\<close>

datatype pyerror =
    NameError string
  | KeyError string
  | IndexError
  | TypeError string
  | ValueError string
  | AttributeError string
  | RuntimeError string int string
  | OSError string
  | FileError file_error
  | UnmodelledConversion char

text \<open>
  The values that reach \<open>%s\<close>. A float is carried by its \<open>str()\<close> rendering: the
  rendering of floating-point numbers is outside the embedding.
\<close>

datatype pyval = PyStr string | PyInt int | PyFloat string | PyNone

definition digit_char :: "nat \<Rightarrow> char" where
  "digit_char d = ''0123456789'' ! d"

fun str_nat :: "nat \<Rightarrow> string" where
  "str_nat n = (if n < 10 then [digit_char n] else str_nat (n div 10) @ [digit_char (n mod 10)])"

declare str_nat.simps [simp del]

definition str_int :: "int \<Rightarrow> string" where
  "str_int i = (if i < 0 then CHR ''-'' # str_nat (nat (- i)) else str_nat (nat i))"

fun py_str :: "pyval \<Rightarrow> string" where
  "py_str (PyStr s) = s"
| "py_str (PyInt i) = str_int i"
| "py_str (PyFloat s) = s"
| "py_str PyNone = ''None''"

text \<open>
  \<open>fmt % (a1, ..., an)\<close> with a tuple on the right. The scan is left to right; \<open>%s\<close>
  takes the next argument, \<open>%%\<close> is a literal percent sign, a lone \<open>%\<close> at the end is
  \<open>ValueError\<close>, a \<open>%\<close> before a character that starts no conversion is \<open>ValueError\<close>
  when there is an argument left for it and \<open>TypeError\<close> when there is none (the argument
  is fetched first), too few arguments and arguments left over are \<open>TypeError\<close>. The
  other conversions (flags, widths, \<open>%d\<close>, \<open>%r\<close>, mapping keys) are not modelled: the scan
  stops there with \<open>UnmodelledConversion\<close>. Each of them raises or takes at least one
  argument (Python 3.7 and later; nothing but \<open>%%\<close> is a literal percent sign).
\<close>

fun py_format :: "string \<Rightarrow> pyval list \<Rightarrow> pyerror + string" where
  "py_format [] [] = Inr []"
| "py_format [] (a # as) = Inl (TypeError ''not all arguments converted during string formatting'')"
| "py_format (c # cs) args =
     (if c \<noteq> CHR ''%'' then
        (case py_format cs args of Inl e \<Rightarrow> Inl e | Inr r \<Rightarrow> Inr (c # r))
      else
        (case cs of
           [] \<Rightarrow> Inl (ValueError ''incomplete format'')
         | d # ds \<Rightarrow>
             if d = CHR ''s'' then
               (case args of
                  [] \<Rightarrow> Inl (TypeError ''not enough arguments for format string'')
                | a # as \<Rightarrow>
                    (case py_format ds as of Inl e \<Rightarrow> Inl e | Inr r \<Rightarrow> Inr (py_str a @ r)))
             else if d = CHR ''%'' then
               (case py_format ds args of Inl e \<Rightarrow> Inl e | Inr r \<Rightarrow> Inr (CHR ''%'' # r))
             else if d \<in> set ''#0- +123456789.*hlL(diouxXeEfFgGcra'' then
               Inl (UnmodelledConversion d)
             else if args = [] then
               Inl (TypeError ''not enough arguments for format string'')
             else Inl (ValueError ''unsupported format character'')))"

text \<open>\<open>s.find(c)\<close> for a one-character needle: the first index, or -1.\<close>

fun py_find :: "char \<Rightarrow> string \<Rightarrow> int" where
  "py_find c [] = - 1"
| "py_find c (x # xs) =
     (if x = c then 0 else (let i = py_find c xs in if i = - 1 then - 1 else i + 1))"

text \<open>\<open>s.rstrip(chars)\<close>: scan from the right end while the character is one of \<open>chars\<close>.\<close>

definition py_rstrip :: "string \<Rightarrow> string \<Rightarrow> string" where
  "py_rstrip chars s = rev (dropWhile (\<lambda>c. c \<in> set chars) (rev s))"

text \<open>\<open>s.split(c)[-1]\<close>: what follows the last \<open>c\<close>, the whole string when there is none.\<close>

definition split_last :: "char \<Rightarrow> string \<Rightarrow> string" where
  "split_last c s = rev (takeWhile (\<lambda>x. x \<noteq> c) (rev s))"

text \<open>\<open>xs[i]\<close> for \<open>i \<ge> 0\<close>, and the first key of a dictionary.\<close>

definition py_index :: "'a list \<Rightarrow> nat \<Rightarrow> pyerror + 'a" where
  "py_index xs i = (if i < length xs then Inr (xs ! i) else Inl IndexError)"

definition py_getitem :: "(string \<times> 'v) list \<Rightarrow> string \<Rightarrow> pyerror + 'v" where
  "py_getitem d k = (case map_of d k of None \<Rightarrow> Inl (KeyError k) | Some v \<Rightarrow> Inr v)"

text \<open>
  A dictionary is an association list in insertion order. A dictionary comprehension
  inserts its pairs one by one; a key met again keeps its place and takes the new value.
\<close>

definition py_dict :: "('k \<times> 'v) list \<Rightarrow> ('k \<times> 'v) list" where
  "py_dict ps = foldl (\<lambda>d (k, v). AList.update k v d) [] ps"

text \<open>Evaluating a list of fallible expressions in order: the first error ends it.\<close>

fun collect :: "(pyerror + 'a) list \<Rightarrow> pyerror + 'a list" where
  "collect [] = Inr []"
| "collect (Inl e # rs) = Inl e"
| "collect (Inr x # rs) = (case collect rs of Inl e \<Rightarrow> Inl e | Inr xs \<Rightarrow> Inr (x # xs))"

text \<open>
  Binding the arguments of a call \<open>f(p1, ..., pn, k1=..., ..., km=...)\<close> to the parameter
  names of \<open>f\<close> (after \<open>self\<close>; no \<open>*args\<close>, no \<open>**kwargs\<close>, every parameter with a
  default): positional arguments fill the first parameters, then each keyword in order
  must name a parameter that is not filled yet.
\<close>

fun bind_keywords :: "string list \<Rightarrow> string list \<Rightarrow> string list \<Rightarrow> pyerror + unit" where
  "bind_keywords params filled [] = Inr ()"
| "bind_keywords params filled (k # ks) =
     (if k \<notin> set params then Inl (TypeError (''got an unexpected keyword argument '' @ k))
      else if k \<in> set filled then Inl (TypeError (''got multiple values for argument '' @ k))
      else bind_keywords params (k # filled) ks)"

definition bind_arguments :: "string list \<Rightarrow> nat \<Rightarrow> string list \<Rightarrow> pyerror + unit" where
  "bind_arguments params npos kws =
     (if length params < npos then Inl (TypeError ''too many positional arguments'')
      else bind_keywords params (take npos params) kws)"

subsection \<open>Data\<close>

text \<open>A row of a fragments file as \<open>pr.read_bed(..., as_df=True)\<close> gives it.\<close>

record fragment =
  Chromosome :: string
  Start :: int
  End :: int
  Name :: string
  Score :: int

text \<open>
  The cell metadata: a pandas data frame with the barcodes as index. A column is the list
  of its values, in index order. \<open>df.loc[:, c]\<close> is the series of (barcode, value)
  pairs, \<open>KeyError\<close> when there is no such column.
\<close>

record DataFrame =
  index :: "string list"
  columns :: "(string \<times> string list) list"

definition loc_column :: "DataFrame \<Rightarrow> string \<Rightarrow> pyerror + (string \<times> string) list" where
  "loc_column df c =
     (case map_of (columns df) c of
        None \<Rightarrow> Inl (KeyError c)
      | Some vals \<Rightarrow> Inr (zip (index df) vals))"

text \<open>A table as \<open>pd.read_csv(path, sep='\t', header=None)\<close> gives it, and a PyRanges over it.\<close>

record table =
  labels :: "string list"
  cells :: "string list list"

datatype PyRanges = PyRanges table

type_synonym chromsizes = "(string \<times> int \<times> int) list"

subsection \<open>The world\<close>

datatype event =
    LogInfo string
  | LogError string
  | ReadBed string
  | ReadCsv string
  | MakeDirs string
  | RayInit int
  | RayShutdown
  | ToBigwig string "fragment list" chromsizes bool
  | ToBed string "fragment list"
  | Subprocess string

text \<open>
  \<open>pipe_error\<close> and \<open>exec_error\<close> are what the operating system answers when
  \<open>subprocess\<close> starts a shell: \<open>Some msg\<close> is an \<open>OSError\<close> with that message, for the pipe
  that captures the output (no file descriptor left) and for the process that is to run
  the command (no process to be had, a command longer than the system accepts).
\<close>

record world =
  bed_files :: "string \<Rightarrow> file_error + fragment list"
  csv_files :: "string \<Rightarrow> file_error + table"
  existing :: "string list"
  pipe_error :: "string option"
  exec_error :: "string \<Rightarrow> string option"
  trace :: "event list"

definition emit :: "event \<Rightarrow> world \<Rightarrow> world" where
  "emit e w = w\<lparr>trace := trace w @ [e]\<rparr>"

text \<open>
  \<open>ray.get([f.remote(x) for x in xs])\<close>: every task is submitted before \<open>ray.get\<close> waits,
  so every task runs; \<open>ray.get\<close> then gives the results in order, or raises the first
  task's exception. The tasks of this module touch disjoint files; the model runs them
  one after the other in list order.
\<close>

fun ray_map :: "('a \<Rightarrow> world \<Rightarrow> (pyerror + 'b) \<times> world) \<Rightarrow> 'a list \<Rightarrow> world
    \<Rightarrow> (pyerror + 'b) list \<times> world" where
  "ray_map f [] w = ([], w)"
| "ray_map f (x # xs) w =
     (case f x w of (r, w1) \<Rightarrow> (case ray_map f xs w1 of (rs, w2) \<Rightarrow> (r # rs, w2)))"

definition ray_get :: "(pyerror + 'b) list \<Rightarrow> pyerror + 'b list" where
  "ray_get rs = collect rs"

subsection \<open>MACS_callPeak\<close>

text \<open>
  The external process, once started: given the shell command and the narrowPeak files as
  they are, it answers with an exit status, its captured output and the files as it
  leaves them.
\<close>

type_synonym subprocess =
  "string \<Rightarrow> (string \<Rightarrow> file_error + table) \<Rightarrow> int \<times> string \<times> (string \<Rightarrow> file_error + table)"

record MACS_callPeak =
  self_macs_path :: string
  self_treatment :: string
  self_name :: string
  self_outdir :: string
  self_format :: pyval
  self_gsize :: string
  self_shift :: pyval
  self_ext_size :: pyval
  self_keep_dup :: pyval
  self_qvalue :: pyval
  self_narrow_peak :: "PyRanges option"

definition narrow_peak_columns :: "string list" where
  "narrow_peak_columns =
     [''Chromosome'', ''Start'', ''End'', ''Name'', ''Score'', ''Strand'', ''FC_summit'',
      ''-log10_pval'', ''-log10_qval'', ''Summit'']"

text \<open>
  \<open>load_narrow_peak\<close> (lines 383-390). Assigning ten column names to a frame of another
  width is pandas' \<open>ValueError\<close> (length mismatch).
\<close>

definition load_narrow_peak :: "MACS_callPeak \<Rightarrow> world \<Rightarrow> (pyerror + PyRanges) \<times> world" where
  "load_narrow_peak self w =
     (let path = self_outdir self @ self_name self @ ''_peaks.narrowPeak'';
          w1 = emit (ReadCsv path) w
      in case csv_files w path of
           Inl e \<Rightarrow> (Inl (FileError e), w1)
         | Inr narrow_peak \<Rightarrow>
             if length (labels narrow_peak) \<noteq> length narrow_peak_columns
             then (Inl (ValueError ''Length mismatch''), w1)
             else (Inr (PyRanges (narrow_peak\<lparr>labels := narrow_peak_columns\<rparr>)), w1))"

definition cmd_template :: string where
  "cmd_template =
     '' callpeak --treatment %s --name %s  --outdir %s --format %s --gsize %s '' @
     ''--qvalue %s --nomodel --shift %s --extsize %s --keep-dup %s --call-summits --nolambda''"

text \<open>
  \<open>callpeak\<close> (lines 358-381). The path of the binary is concatenated to the template
  before \<open>%\<close> is applied, so it is scanned as part of the format string. \<open>log.info(msg,
  cmd)\<close> formats \<open>msg % (cmd,)\<close> inside the logging module, which reports a formatting
  error on stderr and carries on (\<open>log_info_args\<close>).

  \<open>subprocess.check_output(args=cmd, shell=True, stderr=subprocess.STDOUT)\<close> (line 378)
  fails in two ways, and the \<open>except\<close> clause of line 379 takes the second only. Before
  a process runs (\<open>popen_error\<close>), \<open>Popen\<close> raises \<open>OSError\<close> when the system gives it no
  pipe, then \<open>ValueError\<close> (embedded null byte) when the command holds the character of
  code 0, then \<open>OSError\<close> when the system gives it no process for the command; these pass
  through \<open>callpeak\<close> as they are, with no process run and no file touched. When the
  process has run and its exit status is not 0, \<open>check_output\<close> raises
  \<open>CalledProcessError\<close>, which line 380 turns into \<open>RuntimeError\<close>.

  In \<open>callpeak_cmd\<close> the template holds nine \<open>%s\<close> for nine arguments. A conversion
  in \<open>macs_path\<close> that \<open>py_format\<close> does not model either raises or takes an argument,
  which leaves too few for the template: \<open>UnmodelledConversion\<close> as the value of
  \<open>callpeak_cmd\<close> stands for an exception of line 372 (\<open>TypeError\<close> at the latest), with
  no command formatted.
\<close>

definition popen_error :: "world \<Rightarrow> string \<Rightarrow> pyerror option" where
  "popen_error w cmd =
     (case pipe_error w of
        Some msg \<Rightarrow> Some (OSError msg)
      | None \<Rightarrow>
          if CHR 0x00 \<in> set cmd then Some (ValueError ''embedded null byte'')
          else (case exec_error w cmd of Some msg \<Rightarrow> Some (OSError msg) | None \<Rightarrow> None))"

definition log_info_args :: "string \<Rightarrow> pyval list \<Rightarrow> world \<Rightarrow> world" where
  "log_info_args msg args w =
     (case py_format msg args of Inl e \<Rightarrow> w | Inr line \<Rightarrow> emit (LogInfo line) w)"

definition callpeak_cmd :: "MACS_callPeak \<Rightarrow> pyerror + string" where
  "callpeak_cmd self =
     py_format (self_macs_path self @ cmd_template)
       [PyStr (self_treatment self), PyStr (self_name self), PyStr (self_outdir self),
        self_format self, PyStr (self_gsize self), self_qvalue self, self_shift self,
        self_ext_size self, self_keep_dup self]"

definition callpeak :: "subprocess \<Rightarrow> MACS_callPeak \<Rightarrow> world \<Rightarrow> (pyerror + MACS_callPeak) \<times> world" where
  "callpeak sh self w =
     (case callpeak_cmd self of
        Inl e \<Rightarrow> (Inl e, w)
      | Inr cmd \<Rightarrow>
          (let w1 = log_info_args (''Calling peaks for '' @ self_name self @ '' with %s'')
                      [PyStr cmd] w
           in case popen_error w1 cmd of
                Some e \<Rightarrow> (Inl e, w1)
              | None \<Rightarrow>
                  (case sh cmd (csv_files w1) of
                     (returncode, output, files) \<Rightarrow>
                       (let w2 = (emit (Subprocess cmd) w1)\<lparr>csv_files := files\<rparr>
                        in if returncode \<noteq> 0
                           then (Inl (RuntimeError cmd returncode output), w2)
                           else (case load_narrow_peak self w2 of
                                   (Inl e, w3) \<Rightarrow> (Inl e, w3)
                                 | (Inr narrow_peak, w3) \<Rightarrow>
                                     (Inr (self\<lparr>self_narrow_peak := Some narrow_peak\<rparr>),
                                      w3))))))"

text \<open>\<open>__init__\<close> (lines 335-356): store the arguments, then call \<open>callpeak\<close>.\<close>

definition new_MACS_callPeak :: "string \<Rightarrow> string \<Rightarrow> string \<Rightarrow> string \<Rightarrow> string
    \<Rightarrow> pyval \<Rightarrow> pyval \<Rightarrow> pyval \<Rightarrow> pyval \<Rightarrow> pyval \<Rightarrow> MACS_callPeak" where
  "new_MACS_callPeak macs_path bed_path name outdir genome_size input_format shift ext_size
       keep_dup q_value =
     \<lparr>self_macs_path = macs_path, self_treatment = bed_path, self_name = name,
      self_outdir = outdir, self_format = input_format, self_gsize = genome_size,
      self_shift = shift, self_ext_size = ext_size, self_keep_dup = keep_dup,
      self_qvalue = q_value, self_narrow_peak = None\<rparr>"

definition MACS_callPeak_init :: "subprocess \<Rightarrow> string \<Rightarrow> string \<Rightarrow> string \<Rightarrow> string \<Rightarrow> string
    \<Rightarrow> pyval \<Rightarrow> pyval \<Rightarrow> pyval \<Rightarrow> pyval \<Rightarrow> pyval \<Rightarrow> world \<Rightarrow> (pyerror + MACS_callPeak) \<times> world" where
  "MACS_callPeak_init sh macs_path bed_path name outdir genome_size input_format shift ext_size
       keep_dup q_value w =
     callpeak sh
       (new_MACS_callPeak macs_path bed_path name outdir genome_size input_format shift ext_size
          keep_dup q_value) w"

text \<open>\<open>MACS_callPeak_ray\<close> (lines 250-304).\<close>

definition MACS_callPeak_ray :: "subprocess \<Rightarrow> string \<Rightarrow> string \<Rightarrow> string \<Rightarrow> string \<Rightarrow> string
    \<Rightarrow> pyval \<Rightarrow> pyval \<Rightarrow> pyval \<Rightarrow> pyval \<Rightarrow> pyval \<Rightarrow> world \<Rightarrow> (pyerror + MACS_callPeak) \<times> world" where
  "MACS_callPeak_ray sh macs_path bed_path name outdir genome_size input_format shift ext_size
       keep_dup q_value w =
     (case MACS_callPeak_init sh macs_path bed_path name outdir genome_size input_format shift
             ext_size keep_dup q_value w of
        (Inl e, w1) \<Rightarrow> (Inl e, w1)
      | (Inr MACS_peak_calling, w1) \<Rightarrow>
          (Inr MACS_peak_calling, emit (LogInfo (name @ '' done!'')) w1))"

text \<open>
  \<open>peakCalling\<close> (lines 190-247). \<open>bed_paths[name]\<close> is looked up for every key while the
  tasks are submitted; the result dictionary pairs the i-th key with the narrow peaks of
  the i-th task.
\<close>

definition narrow_peak_attr :: "MACS_callPeak \<Rightarrow> pyerror + PyRanges" where
  "narrow_peak_attr m =
     (case self_narrow_peak m of None \<Rightarrow> Inl (AttributeError ''narrow_peak'') | Some p \<Rightarrow> Inr p)"

definition peakCalling :: "subprocess \<Rightarrow> string \<Rightarrow> (string \<times> string) list \<Rightarrow> string \<Rightarrow> string
    \<Rightarrow> int \<Rightarrow> pyval \<Rightarrow> pyval \<Rightarrow> pyval \<Rightarrow> pyval \<Rightarrow> pyval \<Rightarrow> world
    \<Rightarrow> (pyerror + (string \<times> PyRanges) list) \<times> world" where
  "peakCalling sh macs_path bed_paths outdir genome_size n_cpu input_format shift ext_size
       keep_dup q_value w =
     (let w1 = emit (RayInit n_cpu) w
      in case collect (map (\<lambda>name. case py_getitem bed_paths name of
                                       Inl e \<Rightarrow> Inl e
                                     | Inr bed_path \<Rightarrow> Inr (name, bed_path))
                          (map fst bed_paths)) of
           Inl e \<Rightarrow> (Inl e, w1)
         | Inr submitted \<Rightarrow>
             (case ray_map (\<lambda>(name, bed_path).
                              MACS_callPeak_ray sh macs_path bed_path name outdir genome_size
                                input_format shift ext_size keep_dup q_value)
                     submitted w1 of
                (results, w2) \<Rightarrow>
                  (case ray_get results of
                     Inl e \<Rightarrow> (Inl e, w2)
                   | Inr narrow_peaks \<Rightarrow>
                       (let w3 = emit RayShutdown w2
                        in case collect
                                  (map (\<lambda>i. case py_index (map fst bed_paths) i of
                                               Inl e \<Rightarrow> Inl e
                                             | Inr key \<Rightarrow>
                                                 (case py_index narrow_peaks i of
                                                    Inl e \<Rightarrow> Inl e
                                                  | Inr m \<Rightarrow>
                                                      (case narrow_peak_attr m of
                                                         Inl e \<Rightarrow> Inl e
                                                       | Inr p \<Rightarrow> Inr (key, p))))
                                     [0..<length narrow_peaks]) of
                             Inl e \<Rightarrow> (Inl e, w3)
                           | Inr items \<Rightarrow> (Inr (py_dict items), w3)))))"

subsection \<open>exportPseudoBulk\<close>

text \<open>
  Barcodes, sample ids, column names and group labels are strings, so \<open>str(group)\<close> is
  the label itself. The chromosome sizes are carried as they are handed to \<open>to_bigwig\<close>:
  selecting the three columns of a frame and wrapping them into a PyRanges (lines 107-109)
  changes nothing the model holds. The class \<open>cisTopicObject\<close> of the \<open>isinstance\<close>
  tests is taken to be what the star import of line 10 brings.

  What \<open>path_to_fragments\<close> can hold: \<open>None\<close> (the default), one path, a list of paths
  (the attribute of a cisTopic object), or a dictionary from sample id to path.
\<close>

datatype frag_paths =
    PathNone
  | PathStr string
  | PathList "string list"
  | PathDict "(string \<times> string) list"

record cisTopicObject =
  obj_path_to_fragments :: frag_paths
  obj_cell_data :: DataFrame

text \<open>
  \<open>input_data\<close>: a cisTopic object, a cell metadata frame, or anything else (the
  annotation also allows a dictionary of frames, which neither \<open>isinstance\<close> test accepts).
\<close>

datatype input_data =
    CisTopicObject cisTopicObject
  | PdDataFrame DataFrame
  | OtherInput

fun py_len :: "frag_paths \<Rightarrow> pyerror + nat" where
  "py_len PathNone = Inl (TypeError ''object of type NoneType has no len()'')"
| "py_len (PathStr s) = Inr (length s)"
| "py_len (PathList l) = Inr (length l)"
| "py_len (PathDict d) = Inr (length d)"

text \<open>
  Lines 65-77. The function reads the name \<open>cisTopic_obj\<close>, which is neither a parameter
  nor assigned in the function, so Python looks it up among the module's globals. The
  module defines no such name itself; whether \<open>from .cisTopicClass import *\<close> brings one
  is not decided by this file, so the binding is the parameter \<open>glob\<close> (\<open>None\<close>: the name
  is undefined). With more than one path, line 70 reads the local \<open>cell_data\<close> before
  line 72 assigns it. The result is the triple of the locals \<open>path_to_fragments\<close>,
  \<open>cell_data\<close> and \<open>cell_suffixes\<close>, an unassigned local being \<open>None\<close>.
\<close>

definition get_fragments_file :: "cisTopicObject option \<Rightarrow> input_data \<Rightarrow> frag_paths \<Rightarrow> world
    \<Rightarrow> (pyerror + frag_paths \<times> DataFrame option \<times> string list option) \<times> world" where
  "get_fragments_file glob input_data path_to_fragments w =
     (case input_data of
        CisTopicObject _ \<Rightarrow>
          (case glob of
             None \<Rightarrow> (Inl (NameError ''cisTopic_obj''), w)
           | Some cisTopic_obj \<Rightarrow>
               (let p = obj_path_to_fragments cisTopic_obj;
                    w1 = (if p = PathNone
                          then emit (LogError (''No fragments path in this cisTopic object. '' @
                                 ''A fragments file is needed for forming pseudobulk profiles.'')) w
                          else w)
                in case py_len p of
                     Inl e \<Rightarrow> (Inl e, w1)
                   | Inr n \<Rightarrow>
                       if 1 < n then (Inl (NameError ''cell_data''), w1)
                       else (Inr (p, Some (obj_cell_data cisTopic_obj), None), w1)))
      | PdDataFrame df \<Rightarrow>
          (let w1 = (if path_to_fragments = PathNone
                     then emit (LogError ''Please, provide path_to_fragments.'') w
                     else w)
           in (Inr (path_to_fragments, Some df,
                    Some (remdups (map (split_last CHR ''-'') (index df)))), w1))
      | OtherInput \<Rightarrow> (Inr (path_to_fragments, None, None), w))"

text \<open>Lines 81-84: the loop over the keys only logs.\<close>

fun check_keys :: "input_data \<Rightarrow> string list option \<Rightarrow> string list \<Rightarrow> world
    \<Rightarrow> (pyerror + unit) \<times> world" where
  "check_keys input_data cell_suffixes [] w = (Inr (), w)"
| "check_keys input_data cell_suffixes (sample_id # rest) w =
     (case input_data of
        PdDataFrame _ \<Rightarrow>
          (case cell_suffixes of
             None \<Rightarrow> (Inl (NameError ''cell_suffixes''), w)
           | Some known \<Rightarrow>
               check_keys input_data cell_suffixes rest
                 (if sample_id \<notin> set known
                  then emit (LogError (''Check that your cell suffixes match with the keys in '' @
                         ''your path_to_fragments dictionary'')) w
                  else w))
      | _ \<Rightarrow> check_keys input_data cell_suffixes rest w)"

definition read_bed :: "string \<Rightarrow> world \<Rightarrow> (pyerror + fragment list) \<times> world" where
  "read_bed path w =
     (let w1 = emit (ReadBed path) w
      in case bed_files w path of
           Inl e \<Rightarrow> (Inl (FileError e), w1)
         | Inr df \<Rightarrow> (Inr df, w1))"

text \<open>
  Lines 87-91. \<open>fragments_df.loc[:,'Name'][0]\<close> is the row labelled 0, the first row of
  the frame just read; an empty frame has no such row (\<open>KeyError\<close>).
\<close>

definition barcode_correction :: "string \<Rightarrow> fragment list \<Rightarrow> world
    \<Rightarrow> (pyerror + fragment list) \<times> world" where
  "barcode_correction sample_id fragments_df w =
     (case fragments_df of
        [] \<Rightarrow> (Inl (KeyError ''0''), w)
      | first # _ \<Rightarrow>
          (case (if py_find CHR ''-'' (Name first) \<noteq> - 1
                 then (map (\<lambda>x. x\<lparr>Name := py_rstrip ''-1234567890'' (Name x)\<rparr>) fragments_df,
                       emit (LogInfo ''Barcode correction completed'')
                         (emit (LogInfo ''Barcode correction'') w))
                 else (fragments_df, w)) of
             (df, w1) \<Rightarrow> (Inr (map (\<lambda>x. x\<lparr>Name := Name x @ ''-'' @ sample_id\<rparr>) df), w1)))"

text \<open>
  Lines 93-97, reached with the one frame of the one sample that was read:
  \<open>fragments_df_dict\<close> holds that frame alone, and the comprehension indexes its keys
  with every \<open>x\<close> below the number of samples.
\<close>

definition merge_fragments :: "nat \<Rightarrow> string \<Rightarrow> fragment list \<Rightarrow> world
    \<Rightarrow> (pyerror + fragment list) \<times> world" where
  "merge_fragments n_samples sample_id fragments_df w =
     (let fragments_df_dict = AList.update sample_id fragments_df []
      in case collect (map (\<lambda>x. case py_index (map fst fragments_df_dict) x of
                                    Inl e \<Rightarrow> Inl e
                                  | Inr k \<Rightarrow> py_getitem fragments_df_dict k)
                          [0..<n_samples]) of
           Inl e \<Rightarrow> (Inl e, w)
         | Inr fragments_df_list \<Rightarrow>
             (let w1 = emit (LogInfo ''Merging fragments'') w
              in case fragments_df_list of
                   [] \<Rightarrow> (Inl IndexError, w1)
                 | f # fs \<Rightarrow> (Inr (f @ concat fs), w1)))"

text \<open>
  Lines 80-97, the dictionary branch. Lines 85-97 stand after the loop, not in it: they
  run once, with \<open>sample_id\<close> as the loop left it (the last key; unassigned for an empty
  dictionary).
\<close>

definition get_fragments_dict :: "input_data \<Rightarrow> (string \<times> string) list \<Rightarrow> DataFrame option
    \<Rightarrow> string list option \<Rightarrow> world \<Rightarrow> (pyerror + fragment list) \<times> world" where
  "get_fragments_dict input_data d cell_data cell_suffixes w =
     (case check_keys input_data cell_suffixes (map fst d) w of
        (Inl e, w1) \<Rightarrow> (Inl e, w1)
      | (Inr _, w1) \<Rightarrow>
          (if d = [] then (Inl (NameError ''sample_id''), w1)
           else
             (let sample_id = fst (last d) in
              case py_getitem d sample_id of
                Inl e \<Rightarrow> (Inl e, w1)
              | Inr path \<Rightarrow>
                  (case read_bed path (emit (LogInfo (''Reading fragments from '' @ path)) w1) of
                     (Inl e, w2) \<Rightarrow> (Inl e, w2)
                   | (Inr fragments_df, w2) \<Rightarrow>
                       (case barcode_correction sample_id fragments_df w2 of
                          (Inl e, w3) \<Rightarrow> (Inl e, w3)
                        | (Inr named, w3) \<Rightarrow>
                            (case cell_data of
                               None \<Rightarrow> (Inl (NameError ''cell_data''), w3)
                             | Some cd \<Rightarrow>
                                 (let kept = filter (\<lambda>x. Name x \<in> set (index cd)) named
                                  in if 1 < length d
                                     then merge_fragments (length d) sample_id kept w3
                                     else (Inr kept, w3))))))))"

text \<open>
  Lines 79-102. The result is the local \<open>fragments_df\<close>, \<open>None\<close> when no branch assigned
  it. \<open>pr.read_bed\<close> starts with \<open>f.endswith\<close>, which only a string has.
\<close>

definition get_fragments :: "input_data \<Rightarrow> frag_paths \<Rightarrow> DataFrame option \<Rightarrow> string list option
    \<Rightarrow> world \<Rightarrow> (pyerror + fragment list option) \<times> world" where
  "get_fragments input_data path_to_fragments cell_data cell_suffixes w =
     (case path_to_fragments of
        PathDict d \<Rightarrow>
          (case get_fragments_dict input_data d cell_data cell_suffixes w of
             (Inl e, w1) \<Rightarrow> (Inl e, w1)
           | (Inr fragments_df, w1) \<Rightarrow> (Inr (Some fragments_df), w1))
      | _ \<Rightarrow>
          (case input_data of
             CisTopicObject _ \<Rightarrow>
               (let w1 = emit (LogInfo ''Reading fragments'') w
                in case path_to_fragments of
                     PathStr path \<Rightarrow>
                       (case read_bed path w1 of
                          (Inl e, w2) \<Rightarrow> (Inl e, w2)
                        | (Inr fragments_df, w2) \<Rightarrow>
                            (case cell_data of
                               None \<Rightarrow> (Inl (NameError ''cell_data''), w2)
                             | Some cd \<Rightarrow>
                                 (Inr (Some (filter (\<lambda>x. Name x \<in> set (index cd)) fragments_df)), w2)))
                   | _ \<Rightarrow> (Inl (AttributeError ''endswith''), w1))
           | _ \<Rightarrow> (Inr None, w)))"

text \<open>
  \<open>exportPseudoBulk_ray\<close> (lines 130-188). The parameters of \<open>PyRanges.to_bigwig\<close> and
  \<open>PyRanges.to_bed\<close> after \<open>self\<close> are pyranges' own (\<open>path\<close> comes first in both, in
  every release); both paths are strings, so both \<open>isinstance\<close> tests hold. The call of line 182 passes keywords only; the call of line
  184 passes \<open>group_pr\<close> positionally and then \<open>path\<close>, \<open>chromsizes\<close>, \<open>rpm\<close> and
  \<open>value_col\<close> as keywords.
\<close>

definition to_bigwig_params :: "string list" where
  "to_bigwig_params =
     [''path'', ''chromosome_sizes'', ''rpm'', ''divide'', ''value_col'', ''dryrun'', ''chain'']"

definition to_bed_params :: "string list" where
  "to_bed_params = [''path'', ''keep'', ''compression'', ''chain'']"

definition exportPseudoBulk_ray :: "(string \<times> string) list \<Rightarrow> string \<Rightarrow> fragment list \<Rightarrow> chromsizes
    \<Rightarrow> string \<Rightarrow> string \<Rightarrow> bool \<Rightarrow> bool \<Rightarrow> world
    \<Rightarrow> (pyerror + (string \<times> string list) list) \<times> world" where
  "exportPseudoBulk_ray group_var grp fragments_df chromsizes bigwig_path bed_path
       normalize_bigwig remove_duplicates w =
     (let w1 = emit (LogInfo (''Creating pseudobulk for '' @ grp)) w;
          barcodes = map fst (filter (\<lambda>(barcode, annotation). annotation = grp) group_var);
          group_fragments = filter (\<lambda>x. Name x \<in> set barcodes) fragments_df;
          bigwig_path_group = bigwig_path @ grp @ ''.bw'';
          bed_path_group = bed_path @ grp @ ''.bed.gz''
      in case (if remove_duplicates
               then bind_arguments to_bigwig_params 0 [''path'', ''chromosome_sizes'', ''rpm'']
               else bind_arguments to_bigwig_params 1
                      [''path'', ''chromsizes'', ''rpm'', ''value_col'']) of
           Inl e \<Rightarrow> (Inl e, w1)
         | Inr _ \<Rightarrow>
             (let w2 = emit (ToBigwig bigwig_path_group group_fragments chromsizes normalize_bigwig) w1
              in case bind_arguments to_bed_params 0 [''path'', ''keep'', ''compression'', ''chain''] of
                   Inl e \<Rightarrow> (Inl e, w2)
                 | Inr _ \<Rightarrow>
                     (let w3 = emit (ToBed bed_path_group group_fragments) w2;
                          w4 = emit (LogInfo (grp @ '' done!'')) w3
                      in (Inr [(grp, [bigwig_path_group, bed_path_group])], w4))))"

text \<open>
  Lines 111-114: \<open>os.makedirs\<close> when \<open>os.path.exists\<close> says no. The empty path never
  exists and cannot be created.
\<close>

definition ensure_dir :: "string \<Rightarrow> world \<Rightarrow> (pyerror + unit) \<times> world" where
  "ensure_dir path w =
     (if path \<noteq> [] \<and> path \<in> set (existing w) then (Inr (), w)
      else if path = [] then (Inl (FileError FileNotFoundError), w)
      else (Inr (), emit (MakeDirs path) (w\<lparr>existing := path # existing w\<rparr>)))"

text \<open>
  Lines 126-127: the key of the x-th result (its first key) with the first, or the
  second, element of its value.
\<close>

definition path_entry :: "nat \<Rightarrow> (string \<times> string list) list \<Rightarrow> pyerror + string \<times> string" where
  "path_entry i p =
     (case py_index (map fst p) 0 of
        Inl e \<Rightarrow> Inl e
      | Inr k \<Rightarrow>
          (case py_getitem p k of
             Inl e \<Rightarrow> Inl e
           | Inr v \<Rightarrow> (case py_index v i of Inl e \<Rightarrow> Inl e | Inr x \<Rightarrow> Inr (k, x))))"

definition group_labels :: "(string \<times> string) list \<Rightarrow> string list" where
  "group_labels group_var = sort (remdups (map snd group_var))"

text \<open>
  Lines 116-128. The comprehension of line 117 reads \<open>fragments_df\<close> once per group, so an
  unassigned \<open>fragments_df\<close> is an error as soon as there is a group. An exception leaves
  before \<open>ray.shutdown\<close>.
\<close>

definition run_tasks :: "(string \<times> string) list \<Rightarrow> string list \<Rightarrow> fragment list option \<Rightarrow> chromsizes
    \<Rightarrow> string \<Rightarrow> string \<Rightarrow> int \<Rightarrow> bool \<Rightarrow> bool \<Rightarrow> world
    \<Rightarrow> (pyerror + (string \<times> string) list \<times> (string \<times> string) list) \<times> world" where
  "run_tasks group_var groups fragments_df chromsizes bed_path bigwig_path n_cpu
       normalize_bigwig remove_duplicates w =
     (let w3 = emit (RayInit n_cpu) w in
      case collect (map (\<lambda>grp. case fragments_df of
                                   None \<Rightarrow> Inl (NameError ''fragments_df'')
                                 | Some df \<Rightarrow> Inr (grp, df))
                      groups) of
        Inl e \<Rightarrow> (Inl e, w3)
      | Inr submitted \<Rightarrow>
          (case ray_map (\<lambda>(grp, df).
                           exportPseudoBulk_ray group_var grp df chromsizes bigwig_path bed_path
                             normalize_bigwig remove_duplicates)
                  submitted w3 of
             (results, w4) \<Rightarrow>
               (case ray_get results of
                  Inl e \<Rightarrow> (Inl e, w4)
                | Inr paths \<Rightarrow>
                    (let w5 = emit RayShutdown w4 in
                     case collect (map (path_entry 0) paths) of
                       Inl e \<Rightarrow> (Inl e, w5)
                     | Inr bw_items \<Rightarrow>
                         (case collect (map (path_entry 1) paths) of
                            Inl e \<Rightarrow> (Inl e, w5)
                          | Inr bed_items \<Rightarrow>
                              (Inr (py_dict bw_items, py_dict bed_items), w5))))))"

text \<open>
  Lines 104-128: the groups are the distinct values of the column, sorted; the output
  folders are made; then the tasks run.
\<close>

definition create_pseudobulks :: "DataFrame option \<Rightarrow> fragment list option \<Rightarrow> string \<Rightarrow> chromsizes
    \<Rightarrow> string \<Rightarrow> string \<Rightarrow> int \<Rightarrow> bool \<Rightarrow> bool \<Rightarrow> world
    \<Rightarrow> (pyerror + (string \<times> string) list \<times> (string \<times> string) list) \<times> world" where
  "create_pseudobulks cell_data fragments_df variable chromsizes bed_path bigwig_path n_cpu
       normalize_bigwig remove_duplicates w =
     (case cell_data of
        None \<Rightarrow> (Inl (NameError ''cell_data''), w)
      | Some cd \<Rightarrow>
          (case loc_column cd variable of
             Inl e \<Rightarrow> (Inl e, w)
           | Inr group_var \<Rightarrow>
               (case ensure_dir bed_path w of
                  (Inl e, w1) \<Rightarrow> (Inl e, w1)
                | (Inr _, w1) \<Rightarrow>
                    (case ensure_dir bigwig_path w1 of
                       (Inl e, w2) \<Rightarrow> (Inl e, w2)
                     | (Inr _, w2) \<Rightarrow>
                         run_tasks group_var (group_labels group_var) fragments_df chromsizes
                           bed_path bigwig_path n_cpu normalize_bigwig remove_duplicates w2))))"

text \<open>\<open>exportPseudoBulk\<close> (lines 13-128). It returns the pair \<open>(bw_paths, bed_paths)\<close>.\<close>

definition exportPseudoBulk :: "cisTopicObject option \<Rightarrow> input_data \<Rightarrow> string \<Rightarrow> chromsizes \<Rightarrow> string
    \<Rightarrow> string \<Rightarrow> frag_paths \<Rightarrow> int \<Rightarrow> bool \<Rightarrow> bool \<Rightarrow> world
    \<Rightarrow> (pyerror + (string \<times> string) list \<times> (string \<times> string) list) \<times> world" where
  "exportPseudoBulk glob input_data variable chromsizes bed_path bigwig_path path_to_fragments
       n_cpu normalize_bigwig remove_duplicates w =
     (case get_fragments_file glob input_data path_to_fragments w of
        (Inl e, w1) \<Rightarrow> (Inl e, w1)
      | (Inr (paths, cell_data, cell_suffixes), w1) \<Rightarrow>
          (case get_fragments input_data paths cell_data cell_suffixes w1 of
             (Inl e, w2) \<Rightarrow> (Inl e, w2)
           | (Inr fragments_df, w2) \<Rightarrow>
               create_pseudobulks cell_data fragments_df variable chromsizes bed_path bigwig_path
                 n_cpu normalize_bigwig remove_duplicates w2))"

subsection \<open>Reading a trace\<close>

fun is_write :: "event \<Rightarrow> bool" where
  "is_write (ToBigwig path records sizes rpm) = True"
| "is_write (ToBed path records) = True"
| "is_write e = False"

fun is_subprocess :: "event \<Rightarrow> bool" where
  "is_subprocess (Subprocess cmd) = True"
| "is_subprocess e = False"

fun is_read :: "event \<Rightarrow> bool" where
  "is_read (ReadBed path) = True"
| "is_read (ReadCsv path) = True"
| "is_read e = False"


text \<open>
  The command line as claim C5 words it: the path of the binary followed by the options,
  with the group's bed file as treatment and the group's label as name.
\<close>

definition spec_command :: "string \<Rightarrow> string \<Rightarrow> string \<Rightarrow> string \<Rightarrow> string
    \<Rightarrow> pyval \<Rightarrow> pyval \<Rightarrow> pyval \<Rightarrow> pyval \<Rightarrow> pyval \<Rightarrow> string" where
  "spec_command macs_path bed_path name outdir genome_size input_format shift ext_size keep_dup
       q_value =
     macs_path @ '' callpeak --treatment '' @ bed_path @ '' --name '' @ name @ ''  --outdir '' @
     outdir @ '' --format '' @ py_str input_format @ '' --gsize '' @ genome_size @
     '' --qvalue '' @ py_str q_value @ '' --nomodel --shift '' @ py_str shift @
     '' --extsize '' @ py_str ext_size @ '' --keep-dup '' @ py_str keep_dup @
     '' --call-summits --nolambda''"

subsection \<open>Example inputs\<close>

text \<open>
  A fragments file of three fragments, cell metadata for two of the barcodes, a narrowPeak
  table of one peak, and stand-ins for MACS2: one that exits with status 0 and leaves its
  table where \<open>--outdir out --name T\<close> puts it, one that exits with status 0 and leaves
  that file without content (no peak was called), one that exits with status 1.
\<close>

definition fragments_f1 :: "fragment list" where
  "fragments_f1 =
     [\<lparr>Chromosome = ''chr1'', Start = 1, End = 5, Name = ''AAA-1'', Score = 1\<rparr>,
      \<lparr>Chromosome = ''chr1'', Start = 7, End = 9, Name = ''CCC-1'', Score = 2\<rparr>,
      \<lparr>Chromosome = ''chr2'', Start = 7, End = 9, Name = ''GGG-1'', Score = 2\<rparr>]"

definition peaks_T :: table where
  "peaks_T =
     \<lparr>labels = map (\<lambda>i. str_nat i) [0..<10],
      cells = [[''chr1'', ''1'', ''9'', ''T_peak_1'', ''50'', ''.'', ''4.2'', ''7.1'', ''5.0'', ''3'']]\<rparr>"

definition world_0 :: world where
  "world_0 =
     \<lparr>bed_files = (\<lambda>p. if p = ''f1.tsv'' then Inr fragments_f1 else Inl FileNotFoundError),
      csv_files = (\<lambda>p. Inl FileNotFoundError),
      existing = [],
      pipe_error = None,
      exec_error = (\<lambda>cmd. None),
      trace = []\<rparr>"

definition cells_2 :: DataFrame where
  "cells_2 = \<lparr>index = [''AAA-s1'', ''CCC-s1''], columns = [(''celltype'', [''T'', ''B''])]\<rparr>"

definition macs2_ok :: subprocess where
  "macs2_ok cmd files = (0, [], files(''out/T_peaks.narrowPeak'' := Inr peaks_T))"

definition peaks_B :: table where
  "peaks_B =
     \<lparr>labels = map (\<lambda>i. str_nat i) [0..<10],
      cells = [[''chr2'', ''4'', ''8'', ''B_peak_1'', ''70'', ''.'', ''6.3'', ''9.9'', ''7.5'', ''2'']]\<rparr>"

definition macs2_two_groups :: subprocess where
  "macs2_two_groups cmd files =
     (0, [], files(''out/T_peaks.narrowPeak'' := Inr peaks_T, ''out/B_peaks.narrowPeak'' := Inr peaks_B))"



definition call_T :: "string \<Rightarrow> MACS_callPeak" where
  "call_T outdir =
     new_MACS_callPeak ''macs2'' ''bed/T.bed.gz'' ''T'' outdir ''hs'' (PyStr ''BEDPE'') (PyInt 73)
       (PyInt 146) (PyStr ''all'') (PyFloat ''0.05'')"


text \<open>What the task of one group commits to the trace when it completes.\<close>

definition task_events :: "(string \<times> string) list \<Rightarrow> fragment list \<Rightarrow> chromsizes \<Rightarrow> string \<Rightarrow> string
    \<Rightarrow> bool \<Rightarrow> string \<Rightarrow> event list" where
  "task_events group_var fragments_df chromsizes bigwig_path bed_path normalize_bigwig g =
     [LogInfo (''Creating pseudobulk for '' @ g),
      ToBigwig (bigwig_path @ g @ ''.bw'')
        (filter (\<lambda>x. Name x \<in> set (map fst (filter (\<lambda>(barcode, annotation). annotation = g)
                                                 group_var))) fragments_df)
        chromsizes normalize_bigwig,
      ToBed (bed_path @ g @ ''.bed.gz'')
        (filter (\<lambda>x. Name x \<in> set (map fst (filter (\<lambda>(barcode, annotation). annotation = g)
                                                 group_var))) fragments_df),
      LogInfo (g @ '' done!'')]"

fun written_path :: "event \<Rightarrow> string" where
  "written_path (ToBigwig path records sizes rpm) = path"
| "written_path (ToBed path records) = path"
| "written_path e = []"

text \<open>
  The cell metadata a call works with: the frame passed in, or the frame of the object the
  global name \<open>cisTopic_obj\<close> is bound to.
\<close>

definition metadata_of :: "cisTopicObject option \<Rightarrow> input_data \<Rightarrow> DataFrame option" where
  "metadata_of glob input_data =
     (case input_data of
        PdDataFrame df \<Rightarrow> Some df
      | CisTopicObject obj \<Rightarrow> map_option obj_cell_data glob
      | OtherInput \<Rightarrow> None)"

text \<open>
  The log lines of the key check (lines 81-84) for a cell metadata frame, and the barcodes
  of a fragments table as lines 87-91 rewrite them for a sample.
\<close>

definition key_errors :: "DataFrame \<Rightarrow> (string \<times> string) list \<Rightarrow> event list" where
  "key_errors cd d =
     map (\<lambda>k. LogError (''Check that your cell suffixes match with the keys in '' @
                         ''your path_to_fragments dictionary''))
       (filter (\<lambda>k. k \<notin> set (map (split_last CHR ''-'') (index cd))) (map fst d))"

definition sample_barcodes :: "string \<Rightarrow> fragment list \<Rightarrow> fragment list" where
  "sample_barcodes sample_id loaded =
     map (\<lambda>x. x\<lparr>Name := (if CHR ''-'' \<in> set (Name (hd loaded))
                           then py_rstrip ''-1234567890'' (Name x) else Name x)
                         @ ''-'' @ sample_id\<rparr>) loaded"

definition correction_log :: "fragment list \<Rightarrow> event list" where
  "correction_log loaded =
     (if CHR ''-'' \<in> set (Name (hd loaded))
      then [LogInfo ''Barcode correction'', LogInfo ''Barcode correction completed'']
      else [])"

text \<open>
  The records of a group as claim C4 words them: the records whose barcode is in the index
  of the cell metadata and is annotated with the group.
\<close>

definition records_of_group :: "DataFrame \<Rightarrow> (string \<times> string) list \<Rightarrow> string \<Rightarrow> fragment list
    \<Rightarrow> fragment list" where
  "records_of_group cd group_var g records =
     filter (\<lambda>x. Name x \<in> set (index cd) \<and> (Name x, g) \<in> set group_var) records"

text \<open>Two samples: a second fragments file, and cell metadata with cells of both samples.\<close>

definition fragments_f0 :: "fragment list" where
  "fragments_f0 = [\<lparr>Chromosome = ''chr1'', Start = 2, End = 6, Name = ''AAA-1'', Score = 1\<rparr>]"

definition world_2 :: world where
  "world_2 =
     \<lparr>bed_files = (\<lambda>p. if p = ''f0.tsv'' then Inr fragments_f0
                       else if p = ''f1.tsv'' then Inr fragments_f1
                       else Inl FileNotFoundError),
      csv_files = (\<lambda>p. Inl FileNotFoundError),
      existing = [],
      pipe_error = None,
      exec_error = (\<lambda>cmd. None),
      trace = []\<rparr>"

definition cells_3 :: DataFrame where
  "cells_3 =
     \<lparr>index = [''AAA-s0'', ''AAA-s1'', ''CCC-s1''],
      columns = [(''celltype'', [''T'', ''T'', ''B''])]\<rparr>"

section \<open>Properties\<close>

subsection \<open>Strings, lists and dictionaries\<close>

lemma trace_emit: "trace (emit e w) = trace w @ [e]"
  by (simp add: emit_def)

lemma popen_error_cong:
  "pipe_error v = pipe_error w \<Longrightarrow> exec_error v = exec_error w \<Longrightarrow> popen_error v = popen_error w"
  by (simp add: popen_error_def fun_eq_iff split: option.splits)

lemma fields_emit:
  "csv_files (emit e w) = csv_files w" "bed_files (emit e w) = bed_files w"
  "existing (emit e w) = existing w" "pipe_error (emit e w) = pipe_error w"
  "exec_error (emit e w) = exec_error w"
  by (simp_all add: emit_def)

lemma popen_error_emit: "popen_error (emit e w) = popen_error w"
  by (rule popen_error_cong) (simp_all add: fields_emit)

lemma py_find_lower: "- 1 \<le> py_find c s"
  by (induction s) (auto simp: Let_def)

lemma py_find_member: "(py_find c s \<noteq> - 1) = (c \<in> set s)"
proof (induction s)
  case Nil
  show ?case by simp
next
  case (Cons x xs)
  have "- 1 \<le> py_find c xs" by (rule py_find_lower)
  with Cons show ?case by (auto simp: Let_def)
qed

lemma py_rstrip_decompose:
  "py_rstrip chars s @ rev (takeWhile (\<lambda>c. c \<in> set chars) (rev s)) = s"
proof -
  have "rev (takeWhile (\<lambda>c. c \<in> set chars) (rev s) @ dropWhile (\<lambda>c. c \<in> set chars) (rev s)) = s"
    by simp
  then show ?thesis
    unfolding py_rstrip_def rev_append .
qed

lemma py_rstrip_removed:
  "set (rev (takeWhile (\<lambda>c. c \<in> set chars) (rev s))) \<subseteq> set chars"
  by (auto dest: set_takeWhileD)

lemma py_rstrip_last:
  "py_rstrip chars s = [] \<or> last (py_rstrip chars s) \<notin> set chars"
proof (cases "dropWhile (\<lambda>c. c \<in> set chars) (rev s)")
  case Nil
  then show ?thesis by (simp add: py_rstrip_def)
next
  case (Cons y ys)
  then have "\<not> y \<in> set chars"
    using hd_dropWhile [of "\<lambda>c. c \<in> set chars" "rev s"] by simp
  with Cons show ?thesis by (simp add: py_rstrip_def)
qed

lemma collect_map_Inr: "collect (map (\<lambda>x. Inr (f x)) xs) = Inr (map f xs)"
  by (induction xs) auto

lemma collect_map_Inl:
  "collect (map (\<lambda>x. Inl e) xs) = (if xs = [] then Inr [] else Inl e)"
  by (cases xs) auto

lemma collect_length: "collect rs = Inr ys \<Longrightarrow> length ys = length rs"
  by (induction rs arbitrary: ys rule: collect.induct) (auto split: sum.splits)

lemma collect_nth: "collect rs = Inr ys \<Longrightarrow> i < length rs \<Longrightarrow> rs ! i = Inr (ys ! i)"
proof (induction rs arbitrary: ys i rule: collect.induct)
  case 1
  then show ?case by simp
next
  case (2 e rs)
  then show ?case by simp
next
  case (3 x rs)
  then show ?case by (cases i) (auto split: sum.splits)
qed

lemma update_fresh: "k \<notin> fst ` set al \<Longrightarrow> AList.update k v al = al @ [(k, v)]"
  by (induction al) auto

lemma foldl_update_distinct:
  "distinct (map fst (acc @ ps)) \<Longrightarrow>
     foldl (\<lambda>d (k, v). AList.update k v d) acc ps = acc @ ps"
proof (induction ps arbitrary: acc)
  case Nil
  show ?case by simp
next
  case (Cons p ps)
  obtain k v where p: "p = (k, v)" by (cases p)
  from Cons.prems have fresh: "k \<notin> fst ` set acc" by (auto simp: p)
  from Cons.prems have "distinct (map fst ((acc @ [(k, v)]) @ ps))" by (simp add: p)
  from Cons.IH [OF this] show ?case by (simp add: p update_fresh [OF fresh])
qed

lemma py_dict_distinct: "distinct (map fst ps) \<Longrightarrow> py_dict ps = ps"
  using foldl_update_distinct [of "[]" ps] by (simp add: py_dict_def)

lemma py_format_literal:
  "CHR ''%'' \<notin> set s \<Longrightarrow>
     py_format (s @ t) args = (case py_format t args of Inl e \<Rightarrow> Inl e | Inr r \<Rightarrow> Inr (s @ r))"
  by (induction s) (auto split: sum.splits)

lemma py_format_template:
  "py_format cmd_template [a1, a2, a3, a4, a5, a6, a7, a8, a9] =
     Inr ('' callpeak --treatment '' @ py_str a1 @ '' --name '' @ py_str a2 @ ''  --outdir '' @
          py_str a3 @ '' --format '' @ py_str a4 @ '' --gsize '' @ py_str a5 @ '' --qvalue '' @
          py_str a6 @ '' --nomodel --shift '' @ py_str a7 @ '' --extsize '' @ py_str a8 @
          '' --keep-dup '' @ py_str a9 @ '' --call-summits --nolambda'')"
  by (simp add: cmd_template_def)

subsection \<open>callpeak\<close>

lemma log_info_args_fields:
  "csv_files (log_info_args msg args w) = csv_files w"
  "bed_files (log_info_args msg args w) = bed_files w"
  "existing (log_info_args msg args w) = existing w"
  "pipe_error (log_info_args msg args w) = pipe_error w"
  "exec_error (log_info_args msg args w) = exec_error w"
  by (simp_all add: log_info_args_def emit_def split: sum.splits)

lemma popen_error_log_info_args: "popen_error (log_info_args msg args w) = popen_error w"
  by (rule popen_error_cong) (simp_all add: log_info_args_fields)

lemma length_narrow_peak_columns: "length narrow_peak_columns = 10"
  by (simp add: narrow_peak_columns_def)



lemma callpeak_format_error: "callpeak_cmd self = Inl e \<Longrightarrow> callpeak sh self w = (Inl e, w)"
  by (simp add: callpeak_def)


lemma callpeak_not_started:
  "callpeak_cmd self = Inr cmd \<Longrightarrow> popen_error w cmd = Some e \<Longrightarrow>
     fst (callpeak sh self w) = Inl e"
  by (simp add: callpeak_def Let_def log_info_args_fields popen_error_log_info_args)

lemma callpeak_nonzero:
  "callpeak_cmd self = Inr cmd \<Longrightarrow> popen_error w cmd = None \<Longrightarrow>
     sh cmd (csv_files w) = (returncode, output, files) \<Longrightarrow> returncode \<noteq> 0 \<Longrightarrow>
     fst (callpeak sh self w) = Inl (RuntimeError cmd returncode output)"
  by (simp add: callpeak_def Let_def fields_emit log_info_args_fields popen_error_log_info_args)

lemma callpeak_zero:
  "callpeak_cmd self = Inr cmd \<Longrightarrow> popen_error w cmd = None \<Longrightarrow>
     sh cmd (csv_files w) = (0, output, files) \<Longrightarrow>
     fst (callpeak sh self w) =
       (case files (self_outdir self @ self_name self @ ''_peaks.narrowPeak'') of
          Inl e \<Rightarrow> Inl (FileError e)
        | Inr tb \<Rightarrow>
            if length (labels tb) = 10
            then Inr (self\<lparr>self_narrow_peak := Some (PyRanges (tb\<lparr>labels := narrow_peak_columns\<rparr>))\<rparr>)
            else Inl (ValueError ''Length mismatch''))"
  by (simp add: callpeak_def load_narrow_peak_def Let_def fields_emit emit_def
      log_info_args_fields popen_error_log_info_args length_narrow_peak_columns split: sum.splits)




subsection \<open>peakCalling\<close>

lemma ray_map_length: "ray_map f xs w = (rs, w') \<Longrightarrow> length rs = length xs"
  by (induction xs arbitrary: w rs w') (auto split: prod.splits)

lemma ray_map_nth:
  "ray_map f xs w = (rs, w') \<Longrightarrow> i < length xs \<Longrightarrow>
     rs ! i = fst (f (xs ! i) (snd (ray_map f (take i xs) w)))"
proof (induction xs arbitrary: w rs w' i)
  case Nil
  then show ?case by simp
next
  case (Cons x xs)
  obtain r w1 where f: "f x w = (r, w1)" by (cases "f x w")
  obtain rs' w2 where rest: "ray_map f xs w1 = (rs', w2)" by (cases "ray_map f xs w1")
  from Cons.prems f rest have rs: "rs = r # rs'" by simp
  show ?case
  proof (cases i)
    case 0
    with rs f show ?thesis by simp
  next
    case (Suc j)
    with Cons.prems have "j < length xs" by simp
    from Cons.IH [OF rest this] have "rs' ! j = fst (f (xs ! j) (snd (ray_map f (take j xs) w1)))" .
    with Suc rs f show ?thesis by (simp split: prod.splits)
  qed
qed

lemma submitted_all:
  assumes "distinct (map fst d)"
  shows "collect (map (\<lambda>name. case py_getitem d name of Inl e \<Rightarrow> Inl e
                                 | Inr bed_path \<Rightarrow> Inr (name, bed_path)) (map fst d)) = Inr d"
proof -
  have "map (\<lambda>name. case py_getitem d name of Inl e \<Rightarrow> Inl e
                      | Inr bed_path \<Rightarrow> Inr (name, bed_path)) (map fst d)
        = map (\<lambda>p. Inr (id p)) d"
    using assms by (auto simp: py_getitem_def)
  then show ?thesis by (simp only: collect_map_Inr) simp
qed

lemma callpeak_Inr:
  assumes "fst (callpeak sh self w) = Inr m"
  shows "\<exists>cmd out files tb. callpeak_cmd self = Inr cmd \<and> sh cmd (csv_files w) = (0, out, files)
           \<and> files (self_outdir self @ self_name self @ ''_peaks.narrowPeak'') = Inr tb
           \<and> m = self\<lparr>self_narrow_peak := Some (PyRanges (tb\<lparr>labels := narrow_peak_columns\<rparr>))\<rparr>"
proof (cases "callpeak_cmd self")
  case (Inl e)
  with assms show ?thesis by (simp add: callpeak_format_error)
next
  case (Inr cmd)
  obtain returncode out files where sh: "sh cmd (csv_files w) = (returncode, out, files)"
    by (cases "sh cmd (csv_files w)")
  have started: "popen_error w cmd = None"
    using assms Inr by (cases "popen_error w cmd") (simp_all add: callpeak_not_started)
  show ?thesis
  proof (cases "returncode = 0")
    case False
    with assms Inr started sh show ?thesis by (simp add: callpeak_nonzero)
  next
    case True
    with assms Inr sh show ?thesis
      using callpeak_zero [OF Inr started, of sh out files]
      by (auto split: sum.splits if_splits)
  qed
qed

lemma MACS_callPeak_ray_Inr:
  assumes "fst (MACS_callPeak_ray sh macs_path bed_path name outdir genome_size input_format shift
             ext_size keep_dup q_value w) = Inr m"
  shows "fst (callpeak sh (new_MACS_callPeak macs_path bed_path name outdir genome_size
                 input_format shift ext_size keep_dup q_value) w) = Inr m"
  using assms
  by (auto simp: MACS_callPeak_ray_def MACS_callPeak_init_def split: prod.splits sum.splits)

lemma is_subprocess_emit:
  "filter is_subprocess (trace (emit e w)) =
     filter is_subprocess (trace w) @ (if is_subprocess e then [e] else [])"
  by (simp add: emit_def)

lemma load_narrow_peak_subprocess:
  "filter is_subprocess (trace (snd (load_narrow_peak self w))) = filter is_subprocess (trace w)"
  by (simp add: load_narrow_peak_def Let_def emit_def split: sum.splits)

lemma log_info_args_subprocess:
  "filter is_subprocess (trace (log_info_args msg args w)) = filter is_subprocess (trace w)"
  by (simp add: log_info_args_def emit_def split: sum.splits)

lemma load_narrow_peak_popen_error:
  "popen_error (snd (load_narrow_peak self w)) = popen_error w"
  by (rule popen_error_cong)
    (simp_all add: load_narrow_peak_def Let_def emit_def split: sum.splits)

lemma callpeak_popen_error: "popen_error (snd (callpeak sh self w)) = popen_error w"
proof (cases "callpeak_cmd self")
  case (Inl e)
  then show ?thesis by (simp add: callpeak_def)
next
  case (Inr cmd)
  define w1 where "w1 = log_info_args (''Calling peaks for '' @ self_name self @ '' with %s'')
                          [PyStr cmd] w"
  obtain returncode out files where sh: "sh cmd (csv_files w1) = (returncode, out, files)"
    by (cases "sh cmd (csv_files w1)")
  define w2 where "w2 = (emit (Subprocess cmd) w1)\<lparr>csv_files := files\<rparr>"
  obtain r w3 where load: "load_narrow_peak self w2 = (r, w3)"
    by (cases "load_narrow_peak self w2")
  have w1: "popen_error w1 = popen_error w"
    by (simp add: w1_def log_info_args_fields popen_error_log_info_args)
  have "popen_error w2 = popen_error w1"
    by (rule popen_error_cong) (simp_all add: w2_def emit_def)
  with w1 have w2: "popen_error w2 = popen_error w"
    by simp
  have w3: "popen_error w3 = popen_error w"
    using load_narrow_peak_popen_error [of self w2] load w2 by simp
  have "snd (callpeak sh self w) = w1 \<or> snd (callpeak sh self w) = w2
      \<or> snd (callpeak sh self w) = w3"
    using sh load unfolding callpeak_def Inr w1_def w2_def
    by (simp add: Let_def split: sum.splits option.splits)
  with w1 w2 w3 show ?thesis by auto
qed

lemma callpeak_subprocess:
  "filter is_subprocess (trace (snd (callpeak sh self w))) =
     filter is_subprocess (trace w) @
     (case callpeak_cmd self of
        Inl e \<Rightarrow> []
      | Inr cmd \<Rightarrow> if popen_error w cmd = None then [Subprocess cmd] else [])"
proof (cases "callpeak_cmd self")
  case (Inl e)
  then show ?thesis by (simp add: callpeak_def)
next
  case (Inr cmd)
  define w1 where "w1 = log_info_args (''Calling peaks for '' @ self_name self @ '' with %s'')
                          [PyStr cmd] w"
  obtain returncode out files where sh: "sh cmd (csv_files w1) = (returncode, out, files)"
    by (cases "sh cmd (csv_files w1)")
  define w2 where "w2 = (emit (Subprocess cmd) w1)\<lparr>csv_files := files\<rparr>"
  obtain r w3 where load: "load_narrow_peak self w2 = (r, w3)"
    by (cases "load_narrow_peak self w2")
  have w1: "filter is_subprocess (trace w1) = filter is_subprocess (trace w)"
    by (simp add: w1_def log_info_args_subprocess)
  have se: "popen_error w1 = popen_error w"
    by (simp add: w1_def log_info_args_fields popen_error_log_info_args)
  have w2: "filter is_subprocess (trace w2) = filter is_subprocess (trace w) @ [Subprocess cmd]"
    by (simp add: w2_def w1_def emit_def log_info_args_subprocess)
  have w3: "filter is_subprocess (trace w3) = filter is_subprocess (trace w2)"
    using load_narrow_peak_subprocess [of self w2] load by simp
  have "snd (callpeak sh self w) =
      (if popen_error w cmd = None
       then (if returncode \<noteq> 0 then w2 else w3) else w1)"
    using sh load se unfolding callpeak_def Inr w1_def w2_def
    by (simp add: Let_def split: sum.splits option.splits)
  then show ?thesis
    using Inr by (simp add: w1 w2 w3)
qed

lemma MACS_callPeak_ray_popen_error:
  "popen_error (snd (MACS_callPeak_ray sh macs_path bed_path name outdir genome_size input_format
       shift ext_size keep_dup q_value w)) = popen_error w"
proof -
  have "popen_error (snd (MACS_callPeak_ray sh macs_path bed_path name outdir genome_size
       input_format shift ext_size keep_dup q_value w)) =
     popen_error (snd (callpeak sh (new_MACS_callPeak macs_path bed_path name outdir genome_size
       input_format shift ext_size keep_dup q_value) w))"
    by (auto simp: MACS_callPeak_ray_def MACS_callPeak_init_def fields_emit popen_error_emit
        split: prod.splits sum.splits)
  then show ?thesis by (simp add: callpeak_popen_error)
qed

lemma MACS_callPeak_ray_subprocess:
  "filter is_subprocess (trace (snd (MACS_callPeak_ray sh macs_path bed_path name outdir
       genome_size input_format shift ext_size keep_dup q_value w))) =
     filter is_subprocess (trace w) @
     (case callpeak_cmd (new_MACS_callPeak macs_path bed_path name outdir genome_size
             input_format shift ext_size keep_dup q_value) of
        Inl e \<Rightarrow> []
      | Inr cmd \<Rightarrow> if popen_error w cmd = None then [Subprocess cmd] else [])"
proof -
  have "filter is_subprocess (trace (snd (MACS_callPeak_ray sh macs_path bed_path name outdir
       genome_size input_format shift ext_size keep_dup q_value w))) =
     filter is_subprocess (trace (snd (callpeak sh (new_MACS_callPeak macs_path bed_path name
       outdir genome_size input_format shift ext_size keep_dup q_value) w)))"
    by (auto simp: MACS_callPeak_ray_def MACS_callPeak_init_def is_subprocess_emit
        split: prod.splits sum.splits)
  then show ?thesis by (simp add: callpeak_subprocess)
qed

lemma ray_map_filter:
  assumes same: "\<And>x w. popen_error (snd (f x w)) = popen_error w"
    and step: "\<And>x w. popen_error w = se \<Longrightarrow>
                 filter P (trace (snd (f x w))) = filter P (trace w) @ g x"
    and start: "popen_error w = se"
  shows "filter P (trace (snd (ray_map f xs w))) = filter P (trace w) @ concat (map g xs)"
  using start
proof (induction xs arbitrary: w)
  case Nil
  show ?case by simp
next
  case (Cons x xs)
  obtain r w1 where f: "f x w = (r, w1)" by (cases "f x w")
  from step [OF Cons.prems, of x] f have "filter P (trace w1) = filter P (trace w) @ g x" by simp
  moreover from same [of x w] f Cons.prems have "popen_error w1 = se" by simp
  ultimately show ?case using Cons.IH [of w1] f by (auto split: prod.splits)
qed

lemma callpeak_cmd_spec:
  assumes "CHR ''%'' \<notin> set macs_path"
  shows "callpeak_cmd (new_MACS_callPeak macs_path bed_path name outdir genome_size input_format
            shift ext_size keep_dup q_value) =
         Inr (spec_command macs_path bed_path name outdir genome_size input_format shift ext_size
            keep_dup q_value)"
  by (simp add: callpeak_cmd_def new_MACS_callPeak_def spec_command_def
      py_format_literal [OF assms] py_format_template)

lemma peakCalling_distinct:
  assumes "distinct (map fst bed_paths)"
  shows "peakCalling sh macs_path bed_paths outdir genome_size n_cpu input_format shift ext_size
           keep_dup q_value w =
     (case ray_map (\<lambda>(name, bed_path).
                      MACS_callPeak_ray sh macs_path bed_path name outdir genome_size
                        input_format shift ext_size keep_dup q_value)
             bed_paths (emit (RayInit n_cpu) w) of
        (results, w2) \<Rightarrow>
          (case ray_get results of
             Inl e \<Rightarrow> (Inl e, w2)
           | Inr narrow_peaks \<Rightarrow>
               (case collect
                       (map (\<lambda>i. case py_index (map fst bed_paths) i of
                                    Inl e \<Rightarrow> Inl e
                                  | Inr key \<Rightarrow>
                                      (case py_index narrow_peaks i of
                                         Inl e \<Rightarrow> Inl e
                                       | Inr m \<Rightarrow>
                                           (case narrow_peak_attr m of
                                              Inl e \<Rightarrow> Inl e
                                            | Inr p \<Rightarrow> Inr (key, p))))
                          [0..<length narrow_peaks]) of
                  Inl e \<Rightarrow> (Inl e, emit RayShutdown w2)
                | Inr items \<Rightarrow> (Inr (py_dict items), emit RayShutdown w2))))"
  unfolding peakCalling_def submitted_all [OF assms] Let_def by simp

lemma peakCalling_subprocesses:
  assumes "distinct (map fst bed_paths)"
  shows "filter is_subprocess (trace (snd (peakCalling sh macs_path bed_paths outdir genome_size
            n_cpu input_format shift ext_size keep_dup q_value w))) =
         filter is_subprocess (trace w) @
         concat (map (\<lambda>(name, bed_path).
                        case callpeak_cmd (new_MACS_callPeak macs_path bed_path name outdir
                               genome_size input_format shift ext_size keep_dup q_value) of
                          Inl e \<Rightarrow> []
                        | Inr cmd \<Rightarrow> if popen_error w cmd = None
                                     then [Subprocess cmd] else []) bed_paths)"
proof -
  let ?f = "\<lambda>(name, bed_path). MACS_callPeak_ray sh macs_path bed_path name outdir genome_size
                        input_format shift ext_size keep_dup q_value"
  let ?g = "\<lambda>(name, bed_path).
                        case callpeak_cmd (new_MACS_callPeak macs_path bed_path name outdir
                               genome_size input_format shift ext_size keep_dup q_value) of
                          Inl e \<Rightarrow> []
                        | Inr cmd \<Rightarrow> if popen_error w cmd = None
                                     then [Subprocess cmd] else []"
  obtain results w2 where run: "ray_map ?f bed_paths (emit (RayInit n_cpu) w) = (results, w2)"
    by (cases "ray_map ?f bed_paths (emit (RayInit n_cpu) w)")
  have same: "\<And>x v. popen_error (snd (?f x v)) = popen_error v"
    by (simp add: MACS_callPeak_ray_popen_error split: prod.splits)
  have step: "\<And>x v. popen_error v = popen_error w \<Longrightarrow>
                 filter is_subprocess (trace (snd (?f x v))) =
                 filter is_subprocess (trace v) @ ?g x"
    by (simp add: MACS_callPeak_ray_subprocess split: prod.splits sum.splits)
  have "filter is_subprocess (trace (snd (ray_map ?f bed_paths (emit (RayInit n_cpu) w)))) =
          filter is_subprocess (trace (emit (RayInit n_cpu) w)) @ concat (map ?g bed_paths)"
    by (rule ray_map_filter [of ?f "popen_error w" is_subprocess ?g, OF same step])
      (simp_all add: fields_emit popen_error_emit)
  with run have w2: "filter is_subprocess (trace w2) =
      filter is_subprocess (trace w) @ concat (map ?g bed_paths)"
    by (simp add: emit_def)
  have "filter is_subprocess (trace (snd (peakCalling sh macs_path bed_paths outdir genome_size
            n_cpu input_format shift ext_size keep_dup q_value w))) =
        filter is_subprocess (trace w2)"
    unfolding peakCalling_distinct [OF assms] run
    by (simp add: emit_def split: sum.splits)
  with w2 show ?thesis by simp
qed

lemma new_MACS_callPeak_fields:
  "self_outdir (new_MACS_callPeak macs_path bed_path name outdir genome_size input_format shift
      ext_size keep_dup q_value) = outdir"
  "self_name (new_MACS_callPeak macs_path bed_path name outdir genome_size input_format shift
      ext_size keep_dup q_value) = name"
  by (simp_all add: new_MACS_callPeak_def)

text \<open>
  With no percent sign in the path of the binary, and when the shell is started for every
  command (no \<open>OSError\<close>, no character of code 0 in a command), every key of \<open>bed_paths\<close>
  has its subprocess, once and in key order, whatever the subprocesses answer, and the
  command is the path followed by the options with that key's bed file and label.
\<close>

lemma peakCalling_commands:
  assumes "distinct (map fst bed_paths)" and "CHR ''%'' \<notin> set macs_path"
    and started: "\<And>name bed_path. (name, bed_path) \<in> set bed_paths \<Longrightarrow>
          popen_error w (spec_command macs_path bed_path name outdir genome_size input_format
             shift ext_size keep_dup q_value) = None"
  shows "filter is_subprocess (trace (snd (peakCalling sh macs_path bed_paths outdir genome_size
            n_cpu input_format shift ext_size keep_dup q_value w))) =
         filter is_subprocess (trace w) @
         map (\<lambda>(name, bed_path).
                Subprocess (spec_command macs_path bed_path name outdir genome_size input_format
                  shift ext_size keep_dup q_value)) bed_paths"
proof -
  have "concat (map (\<lambda>(name, bed_path).
                        case callpeak_cmd (new_MACS_callPeak macs_path bed_path name outdir
                               genome_size input_format shift ext_size keep_dup q_value) of
                          Inl e \<Rightarrow> []
                        | Inr cmd \<Rightarrow> if popen_error w cmd = None
                                     then [Subprocess cmd] else []) xs) =
        map (\<lambda>(name, bed_path).
                Subprocess (spec_command macs_path bed_path name outdir genome_size input_format
                  shift ext_size keep_dup q_value)) xs"
    if "set xs \<subseteq> set bed_paths" for xs
    using that
  proof (induction xs)
    case Nil
    show ?case by simp
  next
    case (Cons x xs)
    obtain name bed_path where x: "x = (name, bed_path)" by (cases x)
    with Cons.prems have "(name, bed_path) \<in> set bed_paths" by simp
    from started [OF this] Cons x show ?case
      by (simp add: callpeak_cmd_spec [OF assms(2)])
  qed
  from this [of bed_paths] peakCalling_subprocesses [OF assms(1)] show ?thesis by simp
qed

subsection \<open>The steps of exportPseudoBulk\<close>

lemma get_fragments_file_DataFrame:
  "get_fragments_file glob (PdDataFrame cd) path_to_fragments w =
     (Inr (path_to_fragments, Some cd, Some (remdups (map (split_last CHR ''-'') (index cd)))),
      if path_to_fragments = PathNone
      then emit (LogError ''Please, provide path_to_fragments.'') w else w)"
  by (simp add: get_fragments_file_def Let_def)

lemma check_keys_DataFrame:
  "check_keys (PdDataFrame cd) (Some known) keys w =
     (Inr (),
      w\<lparr>trace := trace w @
         map (\<lambda>k. LogError (''Check that your cell suffixes match with the keys in '' @
                             ''your path_to_fragments dictionary''))
           (filter (\<lambda>k. k \<notin> set known) keys)\<rparr>)"
  by (induction keys arbitrary: w) (simp_all add: emit_def)

lemma read_bed_eq:
  "read_bed path w =
     (case bed_files w path of Inl e \<Rightarrow> Inl (FileError e) | Inr df \<Rightarrow> Inr df, emit (ReadBed path) w)"
  by (simp add: read_bed_def Let_def split: sum.splits)

lemma barcode_correction_eq:
  "barcode_correction sample_id (first # rest) w =
     (Inr (map (\<lambda>x. x\<lparr>Name := (if CHR ''-'' \<in> set (Name first)
                                   then py_rstrip ''-1234567890'' (Name x) else Name x)
                                 @ ''-'' @ sample_id\<rparr>) (first # rest)),
      if CHR ''-'' \<in> set (Name first)
      then emit (LogInfo ''Barcode correction completed'') (emit (LogInfo ''Barcode correction'') w)
      else w)"
  by (simp add: barcode_correction_def py_find_member del: py_find.simps)

lemma collect_two:
  assumes "2 \<le> n" and "g 0 = Inr a" and "g (Suc 0) = Inl e"
  shows "collect (map g [0..<n]) = Inl e"
proof -
  from assms(1) have "[0..<n] = 0 # Suc 0 # [2..<n]"
    by (simp add: upt_rec numeral_2_eq_2)
  with assms(2,3) show ?thesis by simp
qed

lemma merge_fragments_fails:
  "1 < n \<Longrightarrow> merge_fragments n sample_id fragments_df w = (Inl IndexError, w)"
  by (simp add: merge_fragments_def Let_def py_index_def py_getitem_def
      collect_two [where a = fragments_df and e = IndexError])

lemma bind_line_182:
  "bind_arguments to_bigwig_params 0 [''path'', ''chromosome_sizes'', ''rpm''] = Inr ()"
  by (simp add: bind_arguments_def to_bigwig_params_def)

lemma bind_line_184:
  "bind_arguments to_bigwig_params 1 [''path'', ''chromsizes'', ''rpm'', ''value_col''] =
     Inl (TypeError ''got multiple values for argument path'')"
  by (simp add: bind_arguments_def to_bigwig_params_def)

lemma bind_line_186:
  "bind_arguments to_bed_params 0 [''path'', ''keep'', ''compression'', ''chain''] = Inr ()"
  by (simp add: bind_arguments_def to_bed_params_def)

lemma exportPseudoBulk_ray_True:
  "exportPseudoBulk_ray group_var g fragments_df chromsizes bigwig_path bed_path nb True w =
     (Inr [(g, [bigwig_path @ g @ ''.bw'', bed_path @ g @ ''.bed.gz''])],
      w\<lparr>trace := trace w @
         [LogInfo (''Creating pseudobulk for '' @ g),
          ToBigwig (bigwig_path @ g @ ''.bw'')
            (filter (\<lambda>x. Name x \<in> set (map fst (filter (\<lambda>(barcode, annotation). annotation = g) group_var)))
               fragments_df) chromsizes nb,
          ToBed (bed_path @ g @ ''.bed.gz'')
            (filter (\<lambda>x. Name x \<in> set (map fst (filter (\<lambda>(barcode, annotation). annotation = g) group_var)))
               fragments_df),
          LogInfo (g @ '' done!'')]\<rparr>)"
  by (simp add: exportPseudoBulk_ray_def Let_def bind_line_182 bind_line_186 emit_def)

lemma exportPseudoBulk_ray_False:
  "exportPseudoBulk_ray group_var g fragments_df chromsizes bigwig_path bed_path nb False w =
     (Inl (TypeError ''got multiple values for argument path''),
      emit (LogInfo (''Creating pseudobulk for '' @ g)) w)"
  unfolding exportPseudoBulk_ray_def Let_def by (simp only: bind_line_184 if_False sum.case)

lemma ray_map_export_True:
  "ray_map (\<lambda>(g, df). exportPseudoBulk_ray group_var g df chromsizes bigwig_path bed_path nb True)
       (map (\<lambda>g. (g, fragments_df)) gs) w =
     (map (\<lambda>g. Inr [(g, [bigwig_path @ g @ ''.bw'', bed_path @ g @ ''.bed.gz''])]) gs,
      w\<lparr>trace := trace w @
         concat (map (task_events group_var fragments_df chromsizes bigwig_path bed_path nb) gs)\<rparr>)"
  by (induction gs arbitrary: w) (simp_all add: exportPseudoBulk_ray_True task_events_def)

lemma ray_map_export_False:
  "ray_map (\<lambda>(g, df). exportPseudoBulk_ray group_var g df chromsizes bigwig_path bed_path nb False)
       (map (\<lambda>g. (g, fragments_df)) gs) w =
     (map (\<lambda>g. Inl (TypeError ''got multiple values for argument path'')) gs,
      w\<lparr>trace := trace w @ map (\<lambda>g. LogInfo (''Creating pseudobulk for '' @ g)) gs\<rparr>)"
  by (induction gs arbitrary: w) (simp_all add: exportPseudoBulk_ray_False emit_def)

lemma path_entry_task:
  "path_entry 0 [(g, [a, b])] = Inr (g, a)" "path_entry (Suc 0) [(g, [a, b])] = Inr (g, b)"
  by (simp_all add: path_entry_def py_index_def py_getitem_def)

text \<open>
  The four ways lines 116-128 can go: no group; groups but no \<open>fragments_df\<close>; every
  task completes (\<open>remove_duplicates = True\<close>); every task raises at line 184
  (\<open>remove_duplicates = False\<close>).
\<close>

lemma run_tasks_no_groups:
  "run_tasks group_var [] fragments_df chromsizes bed_path bigwig_path n_cpu nb rd w =
     (Inr ([], []), w\<lparr>trace := trace w @ [RayInit n_cpu, RayShutdown]\<rparr>)"
  by (simp add: run_tasks_def Let_def ray_get_def py_dict_def emit_def)

lemma run_tasks_unassigned:
  "gs \<noteq> [] \<Longrightarrow>
   run_tasks group_var gs None chromsizes bed_path bigwig_path n_cpu nb rd w =
     (Inl (NameError ''fragments_df''), emit (RayInit n_cpu) w)"
  by (simp add: run_tasks_def Let_def collect_map_Inl)

lemma run_tasks_True:
  assumes "distinct gs"
  shows "run_tasks group_var gs (Some fragments_df) chromsizes bed_path bigwig_path n_cpu nb True w =
     (Inr (map (\<lambda>g. (g, bigwig_path @ g @ ''.bw'')) gs,
           map (\<lambda>g. (g, bed_path @ g @ ''.bed.gz'')) gs),
      w\<lparr>trace := trace w @ [RayInit n_cpu] @
         concat (map (task_events group_var fragments_df chromsizes bigwig_path bed_path nb) gs) @
         [RayShutdown]\<rparr>)"
proof -
  have d0: "py_dict (map (\<lambda>g. (g, bigwig_path @ g @ ''.bw'')) gs) =
      map (\<lambda>g. (g, bigwig_path @ g @ ''.bw'')) gs"
    using assms by (simp add: py_dict_distinct comp_def)
  have d1: "py_dict (map (\<lambda>g. (g, bed_path @ g @ ''.bed.gz'')) gs) =
      map (\<lambda>g. (g, bed_path @ g @ ''.bed.gz'')) gs"
    using assms by (simp add: py_dict_distinct comp_def)
  show ?thesis
    unfolding run_tasks_def Let_def
    by (simp add: collect_map_Inr ray_map_export_True ray_get_def comp_def path_entry_task
        d0 d1 emit_def)
qed

lemma run_tasks_False:
  "gs \<noteq> [] \<Longrightarrow>
   run_tasks group_var gs (Some fragments_df) chromsizes bed_path bigwig_path n_cpu nb False w =
     (Inl (TypeError ''got multiple values for argument path''),
      w\<lparr>trace := trace w @ RayInit n_cpu #
         map (\<lambda>g. LogInfo (''Creating pseudobulk for '' @ g)) gs\<rparr>)"
  unfolding run_tasks_def Let_def
  by (simp add: collect_map_Inr ray_map_export_False ray_get_def collect_map_Inl emit_def)

lemma writes_emit:
  "filter is_write (trace (emit e w)) = filter is_write (trace w) @ (if is_write e then [e] else [])"
  by (simp add: emit_def)

lemma ensure_dir_writes:
  "filter is_write (trace (snd (ensure_dir path w))) = filter is_write (trace w)"
  by (simp add: ensure_dir_def emit_def)

lemma check_keys_writes:
  "filter is_write (trace (snd (check_keys input_data cell_suffixes keys w))) =
     filter is_write (trace w)"
  by (induction keys arbitrary: w)
    (auto simp: emit_def split: input_data.splits option.splits)

lemma read_bed_writes:
  "filter is_write (trace (snd (read_bed path w))) = filter is_write (trace w)"
  by (simp add: read_bed_eq emit_def)

lemma barcode_correction_writes:
  "filter is_write (trace (snd (barcode_correction sample_id fragments_df w))) =
     filter is_write (trace w)"
  by (cases fragments_df) (simp_all add: barcode_correction_def emit_def)

lemma merge_fragments_writes:
  "filter is_write (trace (snd (merge_fragments n sample_id fragments_df w))) =
     filter is_write (trace w)"
  by (simp add: merge_fragments_def Let_def emit_def split: sum.splits list.splits)

lemma get_fragments_file_writes:
  "filter is_write (trace (snd (get_fragments_file glob input_data path_to_fragments w))) =
     filter is_write (trace w)"
  by (simp add: get_fragments_file_def Let_def emit_def
      split: input_data.splits option.splits sum.splits)

lemma get_fragments_dict_writes:
  "filter is_write (trace (snd (get_fragments_dict input_data d cell_data cell_suffixes w))) =
     filter is_write (trace w)"
proof -
  obtain r1 w1 where ck: "check_keys input_data cell_suffixes (map fst d) w = (r1, w1)"
    by (cases "check_keys input_data cell_suffixes (map fst d) w")
  have w1: "filter is_write (trace w1) = filter is_write (trace w)"
    using check_keys_writes [of input_data cell_suffixes "map fst d" w] ck by simp
  show ?thesis
  proof (cases "py_getitem d (fst (last d))")
    case (Inl e)
    with ck w1 show ?thesis
      by (simp add: get_fragments_dict_def Let_def split: sum.splits)
  next
    case (Inr path)
    let ?w1' = "emit (LogInfo (''Reading fragments from '' @ path)) w1"
    obtain r2 w2 where rb: "read_bed path ?w1' = (r2, w2)"
      by (cases "read_bed path ?w1'")
    have w2: "filter is_write (trace w2) = filter is_write (trace w)"
      using read_bed_writes [of path ?w1'] rb w1 by (simp add: emit_def)
    show ?thesis
    proof (cases r2)
      case (Inl e)
      with ck w1 Inr rb w2 show ?thesis
        by (simp add: get_fragments_dict_def Let_def split: sum.splits)
    next
      case df: (Inr fragments_df)
      obtain r3 w3 where bc: "barcode_correction (fst (last d)) fragments_df w2 = (r3, w3)"
        by (cases "barcode_correction (fst (last d)) fragments_df w2")
      have w3: "filter is_write (trace w3) = filter is_write (trace w)"
        using barcode_correction_writes [of "fst (last d)" fragments_df w2] bc w2 by simp
      have mf: "filter is_write (trace (snd (merge_fragments n s k w3))) = filter is_write (trace w)"
        for n s k
        using merge_fragments_writes [of n s k w3] w3 by simp
      from ck w1 Inr rb df bc w3 mf show ?thesis
        by (simp add: get_fragments_dict_def Let_def split: sum.splits option.splits)
    qed
  qed
qed

lemma get_fragments_writes:
  "filter is_write (trace (snd (get_fragments input_data path_to_fragments cell_data cell_suffixes w))) =
     filter is_write (trace w)"
proof (cases path_to_fragments)
  case (PathDict d)
  obtain r w1 where g: "get_fragments_dict input_data d cell_data cell_suffixes w = (r, w1)"
    by (cases "get_fragments_dict input_data d cell_data cell_suffixes w")
  with get_fragments_dict_writes [of input_data d cell_data cell_suffixes w]
  show ?thesis
    by (simp add: get_fragments_def PathDict split: sum.splits)
next
  case PathNone
  then show ?thesis
    by (simp add: get_fragments_def Let_def emit_def split: input_data.splits)
next
  case (PathList l)
  then show ?thesis
    by (simp add: get_fragments_def Let_def emit_def split: input_data.splits)
next
  case (PathStr path)
  let ?w1 = "emit (LogInfo ''Reading fragments'') w"
  obtain r w2 where rb: "read_bed path ?w1 = (r, w2)"
    by (cases "read_bed path ?w1")
  with read_bed_writes [of path ?w1] have "filter is_write (trace w2) = filter is_write (trace w)"
    by (simp add: emit_def)
  with rb show ?thesis
    by (simp add: get_fragments_def PathStr Let_def split: input_data.splits sum.splits option.splits)
qed

lemma last_key_path:
  assumes "d \<noteq> []" and "distinct (map fst d)"
  shows "py_getitem d (fst (last d)) = Inr (snd (last d))"
proof -
  from assms(1) have "last d \<in> set d" by simp
  then have "(fst (last d), snd (last d)) \<in> set d" by simp
  with assms(2) have "map_of d (fst (last d)) = Some (snd (last d))"
    by (rule map_of_is_SomeI)
  then show ?thesis by (simp add: py_getitem_def)
qed

lemma barcode_correction_nonempty:
  "loaded \<noteq> [] \<Longrightarrow>
   barcode_correction sample_id loaded w =
     (Inr (sample_barcodes sample_id loaded), w\<lparr>trace := trace w @ correction_log loaded\<rparr>)"
  by (cases loaded)
    (simp_all add: barcode_correction_eq sample_barcodes_def correction_log_def emit_def)

text \<open>
  The dictionary branch for a cell metadata frame, outcome by outcome: the file of the last
  key cannot be read; it reads as an empty table; it reads as a table of at least one row,
  and then the call fails at line 95 when there is more than one sample.
\<close>

lemma get_fragments_dict_DataFrame:
  assumes "d \<noteq> []" and "distinct (map fst d)"
  shows "get_fragments_dict (PdDataFrame cd) d (Some cd)
            (Some (remdups (map (split_last CHR ''-'') (index cd)))) w =
     (case bed_files w (snd (last d)) of
        Inl e \<Rightarrow>
          (Inl (FileError e),
           w\<lparr>trace := trace w @ key_errors cd d @
              [LogInfo (''Reading fragments from '' @ snd (last d)), ReadBed (snd (last d))]\<rparr>)
      | Inr loaded \<Rightarrow>
          if loaded = [] then
            (Inl (KeyError ''0''),
             w\<lparr>trace := trace w @ key_errors cd d @
                [LogInfo (''Reading fragments from '' @ snd (last d)), ReadBed (snd (last d))]\<rparr>)
          else
            (if 1 < length d then Inl IndexError
             else Inr (filter (\<lambda>x. Name x \<in> set (index cd))
                        (sample_barcodes (fst (last d)) loaded)),
             w\<lparr>trace := trace w @ key_errors cd d @
                [LogInfo (''Reading fragments from '' @ snd (last d)), ReadBed (snd (last d))] @
                correction_log loaded\<rparr>))"
proof -
  let ?w1 = "w\<lparr>trace := trace w @ key_errors cd d\<rparr>"
  have ck: "check_keys (PdDataFrame cd) (Some (remdups (map (split_last CHR ''-'') (index cd))))
              (map fst d) w = (Inr (), ?w1)"
    by (simp add: check_keys_DataFrame key_errors_def)
  let ?path = "snd (last d)"
  show ?thesis
  proof (cases "bed_files w ?path")
    case (Inl e)
    then show ?thesis
      unfolding get_fragments_dict_def ck
      by (simp add: assms last_key_path Let_def read_bed_eq emit_def)
  next
    case (Inr loaded)
    show ?thesis
    proof (cases "loaded = []")
      case True
      with Inr show ?thesis
        unfolding get_fragments_dict_def ck
        by (simp add: assms last_key_path Let_def read_bed_eq emit_def barcode_correction_def)
    next
      case False
      with Inr show ?thesis
        unfolding get_fragments_dict_def ck
        by (simp add: assms last_key_path Let_def read_bed_eq emit_def
            barcode_correction_nonempty merge_fragments_fails)
    qed
  qed
qed

subsection \<open>exportPseudoBulk\<close>

lemma distinct_group_labels: "distinct (group_labels group_var)"
  by (simp add: group_labels_def)

lemma run_tasks_Inr:
  assumes run: "run_tasks group_var gs fragments_df chromsizes bed_path bigwig_path n_cpu nb rd w =
                  (Inr (bw_paths, bed_paths), w')"
    and gs: "distinct gs"
  shows "bw_paths = map (\<lambda>g. (g, bigwig_path @ g @ ''.bw'')) gs
       \<and> bed_paths = map (\<lambda>g. (g, bed_path @ g @ ''.bed.gz'')) gs
       \<and> filter is_write (trace w') = filter is_write (trace w) @
            concat (map (\<lambda>g. filter is_write
                           (task_events group_var (case fragments_df of None \<Rightarrow> [] | Some df \<Rightarrow> df)
                              chromsizes bigwig_path bed_path nb g)) gs)"
proof (cases "gs = []")
  case True
  with run show ?thesis by (auto simp: run_tasks_no_groups)
next
  case False
  show ?thesis
  proof (cases fragments_df)
    case None
    with run False show ?thesis by (simp add: run_tasks_unassigned)
  next
    case (Some df)
    show ?thesis
    proof (cases rd)
      case True
      with run Some show ?thesis
        by (auto simp: run_tasks_True [OF gs] filter_concat comp_def)
    next
      case no: False
      with run Some False show ?thesis by (simp add: run_tasks_False)
    qed
  qed
qed

lemma writes_task_events:
  "filter is_write (task_events group_var fragments_df chromsizes bigwig_path bed_path nb g) =
     [ToBigwig (bigwig_path @ g @ ''.bw'')
        (filter (\<lambda>x. Name x \<in> set (map fst (filter (\<lambda>(barcode, annotation). annotation = g)
                                                 group_var))) fragments_df)
        chromsizes nb,
      ToBed (bed_path @ g @ ''.bed.gz'')
        (filter (\<lambda>x. Name x \<in> set (map fst (filter (\<lambda>(barcode, annotation). annotation = g)
                                                 group_var))) fragments_df)]"
  by (simp add: task_events_def)

lemma create_pseudobulks_Inr:
  assumes "create_pseudobulks cell_data fragments_df variable chromsizes bed_path bigwig_path
             n_cpu nb rd w = (Inr res, w')"
  shows "\<exists>cd group_var w2. cell_data = Some cd \<and> loc_column cd variable = Inr group_var
           \<and> filter is_write (trace w2) = filter is_write (trace w)
           \<and> run_tasks group_var (group_labels group_var) fragments_df chromsizes bed_path
                bigwig_path n_cpu nb rd w2 = (Inr res, w')"
proof -
  from assms obtain cd where cd: "cell_data = Some cd"
    by (cases cell_data) (simp_all add: create_pseudobulks_def)
  from assms cd obtain group_var where gv: "loc_column cd variable = Inr group_var"
    by (cases "loc_column cd variable") (simp_all add: create_pseudobulks_def)
  obtain r1 w1 where e1: "ensure_dir bed_path w = (r1, w1)"
    by (cases "ensure_dir bed_path w")
  obtain r2 w2 where e2: "ensure_dir bigwig_path w1 = (r2, w2)"
    by (cases "ensure_dir bigwig_path w1")
  have "filter is_write (trace w2) = filter is_write (trace w)"
    using ensure_dir_writes [of bed_path w] ensure_dir_writes [of bigwig_path w1] e1 e2 by simp
  moreover from assms cd gv e1 e2
  have "run_tasks group_var (group_labels group_var) fragments_df chromsizes bed_path
          bigwig_path n_cpu nb rd w2 = (Inr res, w')"
    by (simp add: create_pseudobulks_def split: sum.splits)
  ultimately show ?thesis using cd gv by blast
qed

lemma get_fragments_file_metadata:
  "get_fragments_file glob input_data path_to_fragments w = (Inr (paths, cell_data, sfx), w1) \<Longrightarrow>
     cell_data = metadata_of glob input_data"
  by (auto simp: get_fragments_file_def metadata_of_def Let_def
      split: input_data.splits option.splits sum.splits if_splits)

lemma exportPseudoBulk_Inr:
  assumes "exportPseudoBulk glob input_data variable chromsizes bed_path bigwig_path
             path_to_fragments n_cpu nb rd w = (Inr res, w')"
  shows "\<exists>fragments_df w2.
           filter is_write (trace w2) = filter is_write (trace w)
         \<and> create_pseudobulks (metadata_of glob input_data) fragments_df variable chromsizes
              bed_path bigwig_path n_cpu nb rd w2 = (Inr res, w')"
proof -
  obtain r1 w1 where g1: "get_fragments_file glob input_data path_to_fragments w = (r1, w1)"
    by (cases "get_fragments_file glob input_data path_to_fragments w")
  from assms g1 obtain paths cell_data sfx where r1: "r1 = Inr (paths, cell_data, sfx)"
    by (cases r1) (auto simp: exportPseudoBulk_def)
  have cd: "cell_data = metadata_of glob input_data"
    using g1 r1 by (auto dest: get_fragments_file_metadata)
  obtain r2 w2 where g2: "get_fragments input_data paths cell_data sfx w1 = (r2, w2)"
    by (cases "get_fragments input_data paths cell_data sfx w1")
  from assms g1 r1 g2 obtain fragments_df where r2: "r2 = Inr fragments_df"
    by (cases r2) (auto simp: exportPseudoBulk_def)
  have "filter is_write (trace w2) = filter is_write (trace w)"
    using get_fragments_file_writes [of glob input_data path_to_fragments w]
      get_fragments_writes [of input_data paths cell_data sfx w1] g1 g2 by simp
  moreover from assms g1 r1 g2 r2 cd
  have "create_pseudobulks (metadata_of glob input_data) fragments_df variable chromsizes
              bed_path bigwig_path n_cpu nb rd w2 = (Inr res, w')"
    by (simp add: exportPseudoBulk_def)
  ultimately show ?thesis by blast
qed

lemma cells_2_groups: "group_labels [(''AAA-s1'', ''T''), (''CCC-s1'', ''B'')] = [''B'', ''T'']"
  by code_simp

lemma cells_2_celltype:
  "loc_column cells_2 ''celltype'' = Inr [(''AAA-s1'', ''T''), (''CCC-s1'', ''B'')]"
  by (simp add: loc_column_def cells_2_def)

lemma get_fragments_dict_no_sample:
  "fst (get_fragments_dict input_data [] cell_data cell_suffixes w) = Inl (NameError ''sample_id'')"
  by (simp add: get_fragments_dict_def)

lemma get_fragments_dict_multi:
  assumes "1 < length d"
  shows "\<exists>e. fst (get_fragments_dict input_data d cell_data cell_suffixes w) = Inl e"
proof -
  from assms have d: "d \<noteq> []" by auto
  have "\<exists>e. fst (merge_fragments (length d) s k w3) = Inl e" for s k w3
    using assms by (simp add: merge_fragments_fails)
  then show ?thesis
    using assms d
    by (auto simp: get_fragments_dict_def Let_def split: prod.splits sum.splits option.splits)
qed

lemma selected_records:
  "filter (\<lambda>x. Name x \<in> set (map fst (filter (\<lambda>(barcode, annotation). annotation = g) group_var)))
     (filter (\<lambda>x. Name x \<in> set (index cd)) records) =
   records_of_group cd group_var g records"
proof -
  have "(b \<in> set (map fst (filter (\<lambda>(barcode, annotation). annotation = g) group_var))) =
        ((b, g) \<in> set group_var)" for b
    by force
  then show ?thesis
    by (simp add: records_of_group_def conj_commute)
qed

lemma exportPseudoBulk_DataFrame:
  "exportPseudoBulk glob (PdDataFrame cd) variable chromsizes bed_path bigwig_path
       path_to_fragments n_cpu nb rd w =
     (case get_fragments (PdDataFrame cd) path_to_fragments (Some cd)
             (Some (remdups (map (split_last CHR ''-'') (index cd))))
             (if path_to_fragments = PathNone
              then emit (LogError ''Please, provide path_to_fragments.'') w else w) of
        (Inl e, w2) \<Rightarrow> (Inl e, w2)
      | (Inr fragments_df, w2) \<Rightarrow>
          create_pseudobulks (Some cd) fragments_df variable chromsizes bed_path bigwig_path
            n_cpu nb rd w2)"
  by (simp add: exportPseudoBulk_def get_fragments_file_DataFrame)

lemma exportPseudoBulk_dict_Inr:
  assumes "exportPseudoBulk glob (PdDataFrame cd) variable chromsizes bed_path bigwig_path
             (PathDict d) n_cpu nb rd w = (Inr res, w')"
  shows "\<exists>sample_id path loaded w2.
           d = [(sample_id, path)] \<and> bed_files w path = Inr loaded \<and> loaded \<noteq> []
         \<and> filter is_write (trace w2) = filter is_write (trace w)
         \<and> create_pseudobulks (Some cd)
              (Some (filter (\<lambda>x. Name x \<in> set (index cd)) (sample_barcodes sample_id loaded)))
              variable chromsizes bed_path bigwig_path n_cpu nb rd w2 = (Inr res, w')"
proof -
  let ?sfx = "Some (remdups (map (split_last CHR ''-'') (index cd)))"
  obtain r w2 where g: "get_fragments_dict (PdDataFrame cd) d (Some cd) ?sfx w = (r, w2)"
    by (cases "get_fragments_dict (PdDataFrame cd) d (Some cd) ?sfx w")
  from assms g obtain kept where r: "r = Inr kept"
    by (cases r) (auto simp: exportPseudoBulk_DataFrame get_fragments_def)
  from assms g r have cp: "create_pseudobulks (Some cd) (Some kept) variable chromsizes bed_path
      bigwig_path n_cpu nb rd w2 = (Inr res, w')"
    by (simp add: exportPseudoBulk_DataFrame get_fragments_def)
  have w2: "filter is_write (trace w2) = filter is_write (trace w)"
    using get_fragments_dict_writes [of "PdDataFrame cd" d "Some cd" ?sfx w] g by simp
  have "length d = 1"
  proof (rule ccontr)
    assume "length d \<noteq> 1"
    then consider "d = []" | "1 < length d" by (cases d) auto
    then show False
    proof cases
      case 1
      with g r show ?thesis
        using get_fragments_dict_no_sample [of "PdDataFrame cd" "Some cd" ?sfx w] by simp
    next
      case 2
      with g r show ?thesis
        using get_fragments_dict_multi [of d "PdDataFrame cd" "Some cd" ?sfx w] by simp
    qed
  qed
  then obtain sample_id path where d: "d = [(sample_id, path)]"
    by (cases d) auto
  from g r have "\<exists>loaded. bed_files w path = Inr loaded \<and> loaded \<noteq> []
      \<and> kept = filter (\<lambda>x. Name x \<in> set (index cd)) (sample_barcodes sample_id loaded)"
    unfolding d
    by (simp add: get_fragments_dict_DataFrame split: sum.splits if_splits)
  with d w2 cp show ?thesis by blast
qed

text \<open>
  A dictionary of more than one sample: no call returns, and (the keys being distinct)
  the file of the last key is the only one read.
\<close>

lemma several_samples_never_complete:
  assumes "1 < length d"
  shows "\<exists>e. fst (exportPseudoBulk glob (PdDataFrame cd) variable chromsizes bed_path bigwig_path
                  (PathDict d) n_cpu nb rd w) = Inl e"
proof -
  let ?sfx = "Some (remdups (map (split_last CHR ''-'') (index cd)))"
  from get_fragments_dict_multi [OF assms, of "PdDataFrame cd" "Some cd" ?sfx w]
  obtain e where "fst (get_fragments_dict (PdDataFrame cd) d (Some cd) ?sfx w) = Inl e"
    by blast
  then show ?thesis
    by (cases "get_fragments_dict (PdDataFrame cd) d (Some cd) ?sfx w")
      (simp add: exportPseudoBulk_DataFrame get_fragments_def)
qed

lemma several_samples_read_last:
  assumes "1 < length d" and "distinct (map fst d)"
  shows "filter is_read (trace (snd (exportPseudoBulk glob (PdDataFrame cd) variable chromsizes
            bed_path bigwig_path (PathDict d) n_cpu nb rd w))) =
         filter is_read (trace w) @ [ReadBed (snd (last d))]"
proof -
  from assms(1) have d: "d \<noteq> []" by auto
  have "filter is_read (key_errors cd d) = []"
    by (simp add: key_errors_def filter_map comp_def)
  moreover have "filter is_read (correction_log loaded) = []" for loaded
    by (simp add: correction_log_def)
  ultimately show ?thesis
    using assms(1)
    by (simp add: exportPseudoBulk_DataFrame get_fragments_def
        get_fragments_dict_DataFrame [OF d assms(2)] split: sum.splits)
qed

lemma ensure_dir_prefix: "prefix (trace w) (trace (snd (ensure_dir path w)))"
  by (simp add: ensure_dir_def emit_def)

lemma run_tasks_prefix:
  assumes "distinct gs"
  shows "prefix (trace w) (trace (snd (run_tasks group_var gs fragments_df chromsizes bed_path
                                          bigwig_path n_cpu nb rd w)))"
proof (cases "gs = []")
  case True
  then show ?thesis by (simp add: run_tasks_no_groups)
next
  case False
  show ?thesis
  proof (cases fragments_df)
    case None
    with False show ?thesis by (simp add: run_tasks_unassigned emit_def)
  next
    case (Some df)
    with False assms show ?thesis
      by (cases rd) (simp_all add: run_tasks_True run_tasks_False)
  qed
qed

lemma create_pseudobulks_prefix:
  "prefix (trace w) (trace (snd (create_pseudobulks cell_data fragments_df variable chromsizes
                                    bed_path bigwig_path n_cpu nb rd w)))"
proof (cases cell_data)
  case None
  then show ?thesis by (simp add: create_pseudobulks_def)
next
  case (Some cd)
  show ?thesis
  proof (cases "loc_column cd variable")
    case (Inl e)
    with Some show ?thesis by (simp add: create_pseudobulks_def)
  next
    case (Inr group_var)
    obtain r1 w1 where e1: "ensure_dir bed_path w = (r1, w1)"
      by (cases "ensure_dir bed_path w")
    obtain r2 w2 where e2: "ensure_dir bigwig_path w1 = (r2, w2)"
      by (cases "ensure_dir bigwig_path w1")
    have p1: "prefix (trace w) (trace w1)"
      using ensure_dir_prefix [of w bed_path] e1 by simp
    have p2: "prefix (trace w1) (trace w2)"
      using ensure_dir_prefix [of w1 bigwig_path] e2 by simp
    have p3: "prefix (trace w2) (trace (snd (run_tasks group_var (group_labels group_var)
        fragments_df chromsizes bed_path bigwig_path n_cpu nb rd w2)))"
      by (rule run_tasks_prefix [OF distinct_group_labels])
    from p1 p2 have p12: "prefix (trace w) (trace w2)" by (rule prefix_order.trans)
    from p12 p3 have p123: "prefix (trace w) (trace (snd (run_tasks group_var
        (group_labels group_var) fragments_df chromsizes bed_path bigwig_path n_cpu nb rd w2)))"
      by (rule prefix_order.trans)
    from Some Inr e1 e2 p1 p12 p123 show ?thesis
      by (simp add: create_pseudobulks_def split: sum.splits)
  qed
qed

lemma exportPseudoBulk_no_paths:
  "exportPseudoBulk glob (PdDataFrame cd) variable chromsizes bed_path bigwig_path PathNone
       n_cpu nb rd w =
     create_pseudobulks (Some cd) None variable chromsizes bed_path bigwig_path n_cpu nb rd
       (emit (LogError ''Please, provide path_to_fragments.'') w)"
  by (simp add: exportPseudoBulk_DataFrame get_fragments_def)

lemma exportPseudoBulk_dict_prefix:
  assumes "d \<noteq> []" and "distinct (map fst d)"
  shows "prefix (trace w @ key_errors cd d @
                   [LogInfo (''Reading fragments from '' @ snd (last d)), ReadBed (snd (last d))])
           (trace (snd (exportPseudoBulk glob (PdDataFrame cd) variable chromsizes bed_path
                          bigwig_path (PathDict d) n_cpu nb rd w)))"
proof -
  let ?sfx = "Some (remdups (map (split_last CHR ''-'') (index cd)))"
  let ?head = "trace w @ key_errors cd d @
                   [LogInfo (''Reading fragments from '' @ snd (last d)), ReadBed (snd (last d))]"
  obtain r w2 where g: "get_fragments_dict (PdDataFrame cd) d (Some cd) ?sfx w = (r, w2)"
    by (cases "get_fragments_dict (PdDataFrame cd) d (Some cd) ?sfx w")
  have w2: "prefix ?head (trace w2)"
    using g unfolding get_fragments_dict_DataFrame [OF assms]
    by (auto split: sum.splits if_splits)
  show ?thesis
  proof (cases r)
    case (Inl e)
    with g w2 show ?thesis
      by (simp add: exportPseudoBulk_DataFrame get_fragments_def)
  next
    case (Inr kept)
    have "prefix (trace w2) (trace (snd (create_pseudobulks (Some cd) (Some kept) variable
        chromsizes bed_path bigwig_path n_cpu nb rd w2)))"
      by (rule create_pseudobulks_prefix)
    with w2 have "prefix ?head (trace (snd (create_pseudobulks (Some cd) (Some kept) variable
        chromsizes bed_path bigwig_path n_cpu nb rd w2)))"
      by (rule prefix_order.trans)
    with g Inr show ?thesis
      by (simp add: exportPseudoBulk_DataFrame get_fragments_def)
  qed
qed

lemma trailing_chars: "set ''-1234567890'' = set ''-0123456789''"
  by auto

lemma py_rstrip_all_trailing:
  "\<exists>t. s = py_rstrip chars s @ t \<and> set t \<subseteq> set chars
       \<and> (py_rstrip chars s = [] \<or> last (py_rstrip chars s) \<notin> set chars)"
  using py_rstrip_decompose [of chars s, symmetric] py_rstrip_removed [of chars s]
    py_rstrip_last [of chars s]
  by blast

lemma run_tasks_keep_duplicates:
  assumes "distinct gs"
  shows "filter is_write (trace (snd (run_tasks group_var gs fragments_df chromsizes bed_path
            bigwig_path n_cpu nb False w))) = filter is_write (trace w)"
proof (cases "gs = []")
  case True
  then show ?thesis by (simp add: run_tasks_no_groups)
next
  case False
  then show ?thesis
    by (cases fragments_df)
      (simp_all add: run_tasks_unassigned run_tasks_False emit_def filter_map comp_def)
qed

lemma create_pseudobulks_keep_duplicates:
  "filter is_write (trace (snd (create_pseudobulks cell_data fragments_df variable chromsizes
      bed_path bigwig_path n_cpu nb False w))) = filter is_write (trace w)"
proof (cases cell_data)
  case None
  then show ?thesis by (simp add: create_pseudobulks_def)
next
  case (Some cd)
  show ?thesis
  proof (cases "loc_column cd variable")
    case (Inl e)
    with Some show ?thesis by (simp add: create_pseudobulks_def)
  next
    case (Inr group_var)
    obtain r1 w1 where e1: "ensure_dir bed_path w = (r1, w1)"
      by (cases "ensure_dir bed_path w")
    obtain r2 w2 where e2: "ensure_dir bigwig_path w1 = (r2, w2)"
      by (cases "ensure_dir bigwig_path w1")
    have p1: "filter is_write (trace w1) = filter is_write (trace w)"
      using ensure_dir_writes [of bed_path w] e1 by simp
    have p2: "filter is_write (trace w2) = filter is_write (trace w)"
      using ensure_dir_writes [of bigwig_path w1] e2 p1 by simp
    have p3: "filter is_write (trace (snd (run_tasks group_var (group_labels group_var)
        fragments_df chromsizes bed_path bigwig_path n_cpu nb False w2))) = filter is_write (trace w)"
      using run_tasks_keep_duplicates [OF distinct_group_labels, where w = w2] p2 by simp
    from Some Inr e1 e2 p1 p2 p3 show ?thesis
      by (simp add: create_pseudobulks_def split: sum.splits)
  qed
qed

text \<open>
  With \<open>remove_duplicates = False\<close> no call writes a bed or bigwig file.
\<close>

lemma keep_duplicates_writes_nothing:
  "filter is_write (trace (snd (exportPseudoBulk glob input_data variable chromsizes bed_path
      bigwig_path path_to_fragments n_cpu nb False w))) = filter is_write (trace w)"
proof -
  obtain r1 w1 where g1: "get_fragments_file glob input_data path_to_fragments w = (r1, w1)"
    by (cases "get_fragments_file glob input_data path_to_fragments w")
  have p1: "filter is_write (trace w1) = filter is_write (trace w)"
    using get_fragments_file_writes [of glob input_data path_to_fragments w] g1 by simp
  show ?thesis
  proof (cases r1)
    case (Inl e)
    with g1 p1 show ?thesis by (simp add: exportPseudoBulk_def)
  next
    case (Inr t)
    obtain paths cell_data sfx where t: "t = (paths, cell_data, sfx)" by (cases t)
    obtain r2 w2 where g2: "get_fragments input_data paths cell_data sfx w1 = (r2, w2)"
      by (cases "get_fragments input_data paths cell_data sfx w1")
    have p2: "filter is_write (trace w2) = filter is_write (trace w)"
      using get_fragments_writes [of input_data paths cell_data sfx w1] g2 p1 by simp
    have p3: "filter is_write (trace (snd (create_pseudobulks cell_data f variable chromsizes
        bed_path bigwig_path n_cpu nb False w2))) = filter is_write (trace w)" for f
      using create_pseudobulks_keep_duplicates [where w = w2] p2 by simp
    from g1 Inr t g2 p2 p3 show ?thesis
      by (simp add: exportPseudoBulk_def split: sum.splits)
  qed
qed

lemma ensure_dir_ok: "path \<noteq> [] \<Longrightarrow> fst (ensure_dir path w) = Inr ()"
  by (simp add: ensure_dir_def)

text \<open>
  A call that returns: one sample whose file reads as a non-empty table, a column named
  \<open>variable\<close> in the cell metadata, two folder paths that are not empty, and
  \<open>remove_duplicates = True\<close>.
\<close>

lemma exportPseudoBulk_completes:
  assumes readable: "bed_files w path = Inr loaded" and rows: "loaded \<noteq> []"
    and col: "loc_column cd variable = Inr group_var"
    and dirs: "bed_path \<noteq> []" "bigwig_path \<noteq> []"
  shows "fst (exportPseudoBulk glob (PdDataFrame cd) variable chromsizes bed_path bigwig_path
                (PathDict [(sample_id, path)]) n_cpu nb True w) =
         Inr (map (\<lambda>g. (g, bigwig_path @ g @ ''.bw'')) (group_labels group_var),
              map (\<lambda>g. (g, bed_path @ g @ ''.bed.gz'')) (group_labels group_var))"
proof -
  let ?sfx = "Some (remdups (map (split_last CHR ''-'') (index cd)))"
  let ?kept = "filter (\<lambda>x. Name x \<in> set (index cd)) (sample_barcodes sample_id loaded)"
  have d: "[(sample_id, path)] \<noteq> []" "distinct (map fst [(sample_id, path)])"
    by simp_all
  obtain w2 where g: "get_fragments_dict (PdDataFrame cd) [(sample_id, path)] (Some cd) ?sfx w =
      (Inr ?kept, w2)"
    unfolding get_fragments_dict_DataFrame [OF d] using readable rows by simp
  obtain r1 w3 where e1: "ensure_dir bed_path w2 = (r1, w3)"
    by (cases "ensure_dir bed_path w2")
  obtain r2 w4 where e2: "ensure_dir bigwig_path w3 = (r2, w4)"
    by (cases "ensure_dir bigwig_path w3")
  from ensure_dir_ok [OF dirs(1), of w2] e1 have r1: "r1 = Inr ()" by simp
  from ensure_dir_ok [OF dirs(2), of w3] e2 have r2: "r2 = Inr ()" by simp
  have "create_pseudobulks (Some cd) (Some ?kept) variable chromsizes bed_path bigwig_path
          n_cpu nb True w2 =
        run_tasks group_var (group_labels group_var) (Some ?kept) chromsizes bed_path
          bigwig_path n_cpu nb True w4"
    using col e1 e2 r1 r2 by (simp add: create_pseudobulks_def)
  then show ?thesis
    using g by (simp add: exportPseudoBulk_DataFrame get_fragments_def
        run_tasks_True [OF distinct_group_labels])
qed

section \<open>The claims\<close>

subsection \<open>C1: callpeak and the exit status\<close>




subsection \<open>C2: One pair of files per group\<close>

text \<open>
  Claim C2 fails on the code when \<open>remove_duplicates\<close> is \<open>False\<close>: the cell metadata has the
  groups \<open>B\<close> and \<open>T\<close>, the call of line 184 raises \<open>TypeError\<close> in every task, and no bed
  or bigwig file is written.
\<close>

theorem exportPseudoBulk_keep_duplicates_raises:
  "fst (exportPseudoBulk None (PdDataFrame cells_2) ''celltype'' [] ''bed/'' ''bw/''
          (PathDict [(''s1'', ''f1.tsv'')]) 1 True False world_0) =
     Inl (TypeError ''got multiple values for argument path'')
   \<and> filter is_write (trace (snd
        (exportPseudoBulk None (PdDataFrame cells_2) ''celltype'' [] ''bed/'' ''bw/''
          (PathDict [(''s1'', ''f1.tsv'')]) 1 True False world_0))) = []
   \<and> group_labels [(''AAA-s1'', ''T''), (''CCC-s1'', ''B'')] = [''B'', ''T'']
   \<and> loc_column cells_2 ''celltype'' = Inr [(''AAA-s1'', ''T''), (''CCC-s1'', ''B'')]"
  by code_simp

subsection \<open>C3: Several samples\<close>

text \<open>
  Claim C3 fails on the code: with the two samples \<open>s0\<close> and \<open>s1\<close>, both files readable and
  cells of both samples in the metadata, only the file of the last key is read, and the
  call ends with \<open>IndexError\<close> at line 95 without writing a file.
\<close>

theorem exportPseudoBulk_two_samples_raises:
  "fst (exportPseudoBulk None (PdDataFrame cells_3) ''celltype'' [] ''bed/'' ''bw/''
          (PathDict [(''s0'', ''f0.tsv''), (''s1'', ''f1.tsv'')]) 1 True True world_2) =
     Inl IndexError
   \<and> filter is_read (trace (snd
        (exportPseudoBulk None (PdDataFrame cells_3) ''celltype'' [] ''bed/'' ''bw/''
          (PathDict [(''s0'', ''f0.tsv''), (''s1'', ''f1.tsv'')]) 1 True True world_2))) =
     [ReadBed ''f1.tsv'']
   \<and> filter is_write (trace (snd
        (exportPseudoBulk None (PdDataFrame cells_3) ''celltype'' [] ''bed/'' ''bw/''
          (PathDict [(''s0'', ''f0.tsv''), (''s1'', ''f1.tsv'')]) 1 True True world_2))) = []"
  by code_simp

subsection \<open>C4: The records written for a group\<close>

text \<open>
  Claim C4. When \<open>exportPseudoBulk\<close> returns for a cell metadata frame and a dictionary
  of fragments files, the dictionary holds one sample, and what the call has written is,
  for every group \<open>g\<close> in turn, one bigwig and one bed file that both hold exactly the
  loaded records (barcodes rewritten and suffixed with the sample id) whose barcode is in
  the index of the cell metadata and annotated with \<open>g\<close>. A record that fails either
  condition is in none of the written files.
\<close>

theorem group_files_hold_group_records:
  assumes "exportPseudoBulk glob (PdDataFrame cd) variable chromsizes bed_path bigwig_path
             (PathDict d) n_cpu nb rd w = (Inr res, w')"
  shows "\<exists>sample_id path loaded group_var.
           d = [(sample_id, path)] \<and> bed_files w path = Inr loaded
         \<and> loc_column cd variable = Inr group_var
         \<and> filter is_write (trace w') = filter is_write (trace w) @
             concat (map (\<lambda>g.
                 [ToBigwig (bigwig_path @ g @ ''.bw'')
                    (records_of_group cd group_var g (sample_barcodes sample_id loaded))
                    chromsizes nb,
                  ToBed (bed_path @ g @ ''.bed.gz'')
                    (records_of_group cd group_var g (sample_barcodes sample_id loaded))])
               (group_labels group_var))"
proof -
  obtain bw_paths bed_paths where res: "res = (bw_paths, bed_paths)" by (cases res)
  from exportPseudoBulk_dict_Inr [OF assms] obtain sample_id path loaded w2 where
    d: "d = [(sample_id, path)]" and
    ld: "bed_files w path = Inr loaded" and
    w2: "filter is_write (trace w2) = filter is_write (trace w)" and
    cp: "create_pseudobulks (Some cd)
              (Some (filter (\<lambda>x. Name x \<in> set (index cd)) (sample_barcodes sample_id loaded)))
              variable chromsizes bed_path bigwig_path n_cpu nb rd w2 = (Inr res, w')"
    by blast
  from create_pseudobulks_Inr [OF cp] obtain group_var w3 where
    gv: "loc_column cd variable = Inr group_var" and
    w3: "filter is_write (trace w3) = filter is_write (trace w2)" and
    rt: "run_tasks group_var (group_labels group_var)
           (Some (filter (\<lambda>x. Name x \<in> set (index cd)) (sample_barcodes sample_id loaded)))
           chromsizes bed_path bigwig_path n_cpu nb rd w3 = (Inr (bw_paths, bed_paths), w')"
    unfolding res by auto
  have "filter is_write (trace w') = filter is_write (trace w) @
             concat (map (\<lambda>g.
                 [ToBigwig (bigwig_path @ g @ ''.bw'')
                    (records_of_group cd group_var g (sample_barcodes sample_id loaded))
                    chromsizes nb,
                  ToBed (bed_path @ g @ ''.bed.gz'')
                    (records_of_group cd group_var g (sample_barcodes sample_id loaded))])
               (group_labels group_var))"
    using run_tasks_Inr [OF rt distinct_group_labels, THEN conjunct2, THEN conjunct2]
    unfolding option.case writes_task_events selected_records w3 w2 .
  with d ld gv show ?thesis by blast
qed

text \<open>
  Claim C4, witness: of the three fragments read, the one of barcode \<open>CCC\<close> is written to the
  files of group \<open>B\<close>, the one of barcode \<open>AAA\<close> to the files of group \<open>T\<close>, and the one of
  barcode \<open>GGG\<close>, which the cell metadata does not list, to none.
\<close>

theorem group_files_hold_group_records_witness:
  "fst (exportPseudoBulk None (PdDataFrame cells_2) ''celltype'' [] ''bed/'' ''bw/''
          (PathDict [(''s1'', ''f1.tsv'')]) 1 True True world_0) =
     Inr ([(''B'', ''bw/B.bw''), (''T'', ''bw/T.bw'')],
          [(''B'', ''bed/B.bed.gz''), (''T'', ''bed/T.bed.gz'')])
   \<and> filter is_write (trace (snd
        (exportPseudoBulk None (PdDataFrame cells_2) ''celltype'' [] ''bed/'' ''bw/''
          (PathDict [(''s1'', ''f1.tsv'')]) 1 True True world_0))) =
     [ToBigwig ''bw/B.bw''
        [\<lparr>Chromosome = ''chr1'', Start = 7, End = 9, Name = ''CCC-s1'', Score = 2\<rparr>] [] True,
      ToBed ''bed/B.bed.gz''
        [\<lparr>Chromosome = ''chr1'', Start = 7, End = 9, Name = ''CCC-s1'', Score = 2\<rparr>],
      ToBigwig ''bw/T.bw''
        [\<lparr>Chromosome = ''chr1'', Start = 1, End = 5, Name = ''AAA-s1'', Score = 1\<rparr>] [] True,
      ToBed ''bed/T.bed.gz''
        [\<lparr>Chromosome = ''chr1'', Start = 1, End = 5, Name = ''AAA-s1'', Score = 1\<rparr>]]"
proof -
  let ?run = "exportPseudoBulk None (PdDataFrame cells_2) ''celltype'' [] ''bed/'' ''bw/''
          (PathDict [(''s1'', ''f1.tsv'')]) 1 True True world_0"
  let ?gv = "[(''AAA-s1'', ''T''), (''CCC-s1'', ''B'')]"
  have res: "fst ?run = Inr ([(''B'', ''bw/B.bw''), (''T'', ''bw/T.bw'')],
          [(''B'', ''bed/B.bed.gz''), (''T'', ''bed/T.bed.gz'')])"
    by code_simp
  then have run: "?run = (Inr ([(''B'', ''bw/B.bw''), (''T'', ''bw/T.bw'')],
          [(''B'', ''bed/B.bed.gz''), (''T'', ''bed/T.bed.gz'')]), snd ?run)"
    by (simp add: prod_eq_iff)
  have recs_B: "records_of_group cells_2 ?gv ''B'' (sample_barcodes ''s1'' fragments_f1) =
      [\<lparr>Chromosome = ''chr1'', Start = 7, End = 9, Name = ''CCC-s1'', Score = 2\<rparr>]"
    by code_simp
  have recs_T: "records_of_group cells_2 ?gv ''T'' (sample_barcodes ''s1'' fragments_f1) =
      [\<lparr>Chromosome = ''chr1'', Start = 1, End = 5, Name = ''AAA-s1'', Score = 1\<rparr>]"
    by code_simp
  from group_files_hold_group_records [OF run] obtain sample_id path loaded group_var where
    d: "[(''s1'', ''f1.tsv'')] = [(sample_id, path)]" and
    ld: "bed_files world_0 path = Inr loaded" and
    gv: "loc_column cells_2 ''celltype'' = Inr group_var" and
    wr: "filter is_write (trace (snd ?run)) = filter is_write (trace world_0) @
             concat (map (\<lambda>g.
                 [ToBigwig (''bw/'' @ g @ ''.bw'')
                    (records_of_group cells_2 group_var g (sample_barcodes sample_id loaded))
                    [] True,
                  ToBed (''bed/'' @ g @ ''.bed.gz'')
                    (records_of_group cells_2 group_var g (sample_barcodes sample_id loaded))])
               (group_labels group_var))"
    by blast
  from d have sp: "sample_id = ''s1''" "path = ''f1.tsv''" by simp_all
  from ld sp have l: "loaded = fragments_f1" by (simp add: world_0_def)
  from gv have g: "group_var = ?gv" by (simp add: cells_2_celltype)
  have "filter is_write (trace (snd ?run)) =
     [ToBigwig ''bw/B.bw''
        [\<lparr>Chromosome = ''chr1'', Start = 7, End = 9, Name = ''CCC-s1'', Score = 2\<rparr>] [] True,
      ToBed ''bed/B.bed.gz''
        [\<lparr>Chromosome = ''chr1'', Start = 7, End = 9, Name = ''CCC-s1'', Score = 2\<rparr>],
      ToBigwig ''bw/T.bw''
        [\<lparr>Chromosome = ''chr1'', Start = 1, End = 5, Name = ''AAA-s1'', Score = 1\<rparr>] [] True,
      ToBed ''bed/T.bed.gz''
        [\<lparr>Chromosome = ''chr1'', Start = 1, End = 5, Name = ''AAA-s1'', Score = 1\<rparr>]]"
    unfolding wr sp l g cells_2_groups by (simp add: recs_B recs_T world_0_def)
  with res show ?thesis by simp
qed

subsection \<open>C5: The command line\<close>

text \<open>
  Claim C5 fails on the code when the path of the binary holds a percent sign. With
  \<open>/opt/50%/macs2\<close> the formatting of the command raises \<open>ValueError\<close> and no subprocess is
  run; with \<open>/opt/a%%b/macs2\<close> the command that is run starts with \<open>/opt/a%b/macs2\<close>.
\<close>

theorem peakCalling_percent_in_macs_path:
  "fst (peakCalling macs2_ok ''/opt/50%/macs2'' [(''T'', ''bed/T.bed.gz'')] ''out/'' ''hs'' 1
          (PyStr ''BEDPE'') (PyInt 73) (PyInt 146) (PyStr ''all'') (PyFloat ''0.05'') world_0) =
     Inl (ValueError ''unsupported format character'')
   \<and> trace (snd (peakCalling macs2_ok ''/opt/50%/macs2'' [(''T'', ''bed/T.bed.gz'')] ''out/''
          ''hs'' 1 (PyStr ''BEDPE'') (PyInt 73) (PyInt 146) (PyStr ''all'') (PyFloat ''0.05'')
          world_0)) = [RayInit 1]
   \<and> filter is_subprocess
        (trace (snd (peakCalling macs2_ok ''/opt/a%%b/macs2'' [(''T'', ''bed/T.bed.gz'')] ''out/''
          ''hs'' 1 (PyStr ''BEDPE'') (PyInt 73) (PyInt 146) (PyStr ''all'') (PyFloat ''0.05'')
          world_0))) =
       [Subprocess (''/opt/a%b/macs2 callpeak --treatment bed/T.bed.gz --name T  --outdir out/'' @
          '' --format BEDPE --gsize hs --qvalue 0.05 --nomodel --shift 73 --extsize 146'' @
          '' --keep-dup all --call-summits --nolambda'')]
   \<and> spec_command ''/opt/a%%b/macs2'' ''bed/T.bed.gz'' ''T'' ''out/'' ''hs'' (PyStr ''BEDPE'')
         (PyInt 73) (PyInt 146) (PyStr ''all'') (PyFloat ''0.05'') =
       ''/opt/a%%b/macs2 callpeak --treatment bed/T.bed.gz --name T  --outdir out/'' @
          '' --format BEDPE --gsize hs --qvalue 0.05 --nomodel --shift 73 --extsize 146'' @
          '' --keep-dup all --call-summits --nolambda''"
  by code_simp

subsection \<open>C6: The result of peakCalling\<close>

text \<open>
  Claim C6. When \<open>peakCalling\<close> returns, the keys of the returned dictionary are the keys
  of \<open>bed_paths\<close> in the same order, and the value at the i-th key is the PyRanges over
  the table read from \<open>outdir + name + '_peaks.narrowPeak'\<close> as the subprocess of that
  same key left it: the subprocess whose command was formatted with that key as name and
  that key's bed file as treatment, run in the world the earlier tasks left.
\<close>

theorem peakCalling_result:
  assumes run: "peakCalling sh macs_path bed_paths outdir genome_size n_cpu input_format shift
                  ext_size keep_dup q_value w = (Inr narrow_peaks_dict, w')"
    and keys: "distinct (map fst bed_paths)"
  shows "map fst narrow_peaks_dict = map fst bed_paths \<and>
     (\<forall>i<length bed_paths. \<exists>cmd out files tb.
         callpeak_cmd (new_MACS_callPeak macs_path (snd (bed_paths ! i)) (fst (bed_paths ! i))
            outdir genome_size input_format shift ext_size keep_dup q_value) = Inr cmd
       \<and> sh cmd (csv_files (snd (ray_map
              (\<lambda>(name, bed_path). MACS_callPeak_ray sh macs_path bed_path name outdir genome_size
                                      input_format shift ext_size keep_dup q_value)
              (take i bed_paths) (emit (RayInit n_cpu) w)))) = (0, out, files)
       \<and> files (outdir @ fst (bed_paths ! i) @ ''_peaks.narrowPeak'') = Inr tb
       \<and> narrow_peaks_dict ! i =
            (fst (bed_paths ! i), PyRanges (tb\<lparr>labels := narrow_peak_columns\<rparr>)))"
proof -
  let ?f = "\<lambda>(name, bed_path). MACS_callPeak_ray sh macs_path bed_path name outdir genome_size
                                      input_format shift ext_size keep_dup q_value"
  let ?w1 = "emit (RayInit n_cpu) w"
  obtain results w2 where rm: "ray_map ?f bed_paths ?w1 = (results, w2)"
    by (cases "ray_map ?f bed_paths ?w1")
  define h where "h narrow_peaks i =
      (case py_index (map fst bed_paths) i of
         Inl e \<Rightarrow> Inl e
       | Inr key \<Rightarrow>
           (case py_index narrow_peaks i of
              Inl e \<Rightarrow> Inl e
            | Inr m \<Rightarrow> (case narrow_peak_attr m of Inl e \<Rightarrow> Inl e | Inr p \<Rightarrow> Inr (key, p))))"
    for narrow_peaks :: "MACS_callPeak list" and i
  from run obtain narrow_peaks items where
    rg: "ray_get results = Inr narrow_peaks" and
    it: "collect (map (h narrow_peaks) [0..<length narrow_peaks]) = Inr items" and
    d: "narrow_peaks_dict = py_dict items"
    unfolding peakCalling_distinct [OF keys] rm h_def
    by (auto split: sum.splits)
  have len_r: "length results = length bed_paths"
    using rm by (rule ray_map_length)
  have len_n: "length narrow_peaks = length bed_paths"
    using collect_length [OF rg [unfolded ray_get_def]] len_r by simp
  have len_i: "length items = length bed_paths"
    using collect_length [OF it] len_n by simp
  have item: "\<exists>cmd out files tb.
         callpeak_cmd (new_MACS_callPeak macs_path (snd (bed_paths ! i)) (fst (bed_paths ! i))
            outdir genome_size input_format shift ext_size keep_dup q_value) = Inr cmd
       \<and> sh cmd (csv_files (snd (ray_map ?f (take i bed_paths) ?w1))) = (0, out, files)
       \<and> files (outdir @ fst (bed_paths ! i) @ ''_peaks.narrowPeak'') = Inr tb
       \<and> items ! i = (fst (bed_paths ! i), PyRanges (tb\<lparr>labels := narrow_peak_columns\<rparr>))"
    if i: "i < length bed_paths" for i
  proof -
    let ?wi = "snd (ray_map ?f (take i bed_paths) ?w1)"
    let ?self = "new_MACS_callPeak macs_path (snd (bed_paths ! i)) (fst (bed_paths ! i))
            outdir genome_size input_format shift ext_size keep_dup q_value"
    have "results ! i = Inr (narrow_peaks ! i)"
      using collect_nth [OF rg [unfolded ray_get_def]] i len_r by simp
    moreover have "results ! i = fst (?f (bed_paths ! i) ?wi)"
      using ray_map_nth [OF rm i] .
    ultimately have "fst (MACS_callPeak_ray sh macs_path (snd (bed_paths ! i)) (fst (bed_paths ! i))
        outdir genome_size input_format shift ext_size keep_dup q_value ?wi) = Inr (narrow_peaks ! i)"
      by (simp add: case_prod_beta)
    then have "fst (callpeak sh ?self ?wi) = Inr (narrow_peaks ! i)"
      by (rule MACS_callPeak_ray_Inr)
    from callpeak_Inr [OF this] obtain cmd out files tb where
      c: "callpeak_cmd ?self = Inr cmd" and
      s: "sh cmd (csv_files ?wi) = (0, out, files)" and
      f: "files (outdir @ fst (bed_paths ! i) @ ''_peaks.narrowPeak'') = Inr tb" and
      m: "narrow_peaks ! i =
            ?self\<lparr>self_narrow_peak := Some (PyRanges (tb\<lparr>labels := narrow_peak_columns\<rparr>))\<rparr>"
      by (auto simp: new_MACS_callPeak_fields)
    have "h narrow_peaks i =
        Inr (fst (bed_paths ! i), PyRanges (tb\<lparr>labels := narrow_peak_columns\<rparr>))"
      using i len_n m by (simp add: h_def py_index_def narrow_peak_attr_def)
    moreover have "map (h narrow_peaks) [0..<length narrow_peaks] ! i = Inr (items ! i)"
      using collect_nth [OF it] i len_n by simp
    ultimately have "items ! i =
        (fst (bed_paths ! i), PyRanges (tb\<lparr>labels := narrow_peak_columns\<rparr>))"
      using i len_n by simp
    with c s f show ?thesis by blast
  qed
  have fst_items: "map fst items = map fst bed_paths"
  proof (rule nth_equalityI)
    show "length (map fst items) = length (map fst bed_paths)"
      using len_i by simp
  next
    fix i
    assume "i < length (map fst items)"
    then have i: "i < length bed_paths" using len_i by simp
    from item [OF i] have "fst (items ! i) = fst (bed_paths ! i)" by auto
    with i len_i show "map fst items ! i = map fst bed_paths ! i" by simp
  qed
  with keys have "py_dict items = items"
    by (simp add: py_dict_distinct)
  with d have eq: "narrow_peaks_dict = items" by simp
  show ?thesis
    unfolding eq using fst_items item by blast
qed

text \<open>
  Claim C6, witness: the groups \<open>T\<close> and \<open>B\<close>, in this order, and a stand-in subprocess
  that leaves a table for each; the dictionary returned has the keys \<open>T\<close> and \<open>B\<close> in
  this order, each with the table of its own file.
\<close>

theorem peakCalling_result_witness:
  "fst (peakCalling macs2_two_groups ''macs2'' [(''T'', ''bed/T.bed.gz''), (''B'', ''bed/B.bed.gz'')]
          ''out/'' ''hs'' 1 (PyStr ''BEDPE'') (PyInt 73) (PyInt 146) (PyStr ''all'')
          (PyFloat ''0.05'') world_0) =
     Inr [(''T'', PyRanges (peaks_T\<lparr>labels := narrow_peak_columns\<rparr>)),
          (''B'', PyRanges (peaks_B\<lparr>labels := narrow_peak_columns\<rparr>))]
   \<and> distinct (map fst [(''T'', ''bed/T.bed.gz''), (''B'', ''bed/B.bed.gz'')])
   \<and> map fst [(''T'', PyRanges (peaks_T\<lparr>labels := narrow_peak_columns\<rparr>)),
               (''B'', PyRanges (peaks_B\<lparr>labels := narrow_peak_columns\<rparr>))] =
       map fst [(''T'', ''bed/T.bed.gz''), (''B'', ''bed/B.bed.gz'')]
   \<and> (\<exists>cmd out files tb.
         callpeak_cmd (call_T ''out/'') = Inr cmd
       \<and> macs2_two_groups cmd (csv_files (emit (RayInit 1) world_0)) = (0, out, files)
       \<and> files ''out/T_peaks.narrowPeak'' = Inr tb
       \<and> [(''T'', PyRanges (peaks_T\<lparr>labels := narrow_peak_columns\<rparr>)),
           (''B'', PyRanges (peaks_B\<lparr>labels := narrow_peak_columns\<rparr>))] ! 0 =
            (''T'', PyRanges (tb\<lparr>labels := narrow_peak_columns\<rparr>)))"
proof -
  let ?run = "peakCalling macs2_two_groups ''macs2''
          [(''T'', ''bed/T.bed.gz''), (''B'', ''bed/B.bed.gz'')]
          ''out/'' ''hs'' 1 (PyStr ''BEDPE'') (PyInt 73) (PyInt 146) (PyStr ''all'')
          (PyFloat ''0.05'') world_0"
  have res: "fst ?run = Inr [(''T'', PyRanges (peaks_T\<lparr>labels := narrow_peak_columns\<rparr>)),
          (''B'', PyRanges (peaks_B\<lparr>labels := narrow_peak_columns\<rparr>))]"
    by code_simp
  then have run: "?run = (Inr [(''T'', PyRanges (peaks_T\<lparr>labels := narrow_peak_columns\<rparr>)),
          (''B'', PyRanges (peaks_B\<lparr>labels := narrow_peak_columns\<rparr>))], snd ?run)"
    by (simp add: prod_eq_iff)
  have keys: "distinct (map fst [(''T'', ''bed/T.bed.gz''), (''B'', ''bed/B.bed.gz'')])"
    by simp
  from peakCalling_result [OF run keys] have all:
    "\<forall>i<length [(''T'', ''bed/T.bed.gz''), (''B'', ''bed/B.bed.gz'')]. \<exists>cmd out files tb.
         callpeak_cmd (new_MACS_callPeak ''macs2''
            (snd ([(''T'', ''bed/T.bed.gz''), (''B'', ''bed/B.bed.gz'')] ! i))
            (fst ([(''T'', ''bed/T.bed.gz''), (''B'', ''bed/B.bed.gz'')] ! i))
            ''out/'' ''hs'' (PyStr ''BEDPE'') (PyInt 73) (PyInt 146) (PyStr ''all'')
            (PyFloat ''0.05'')) = Inr cmd
       \<and> macs2_two_groups cmd (csv_files (snd (ray_map
              (\<lambda>(name, bed_path). MACS_callPeak_ray macs2_two_groups ''macs2'' bed_path name
                  ''out/'' ''hs'' (PyStr ''BEDPE'') (PyInt 73) (PyInt 146) (PyStr ''all'')
                  (PyFloat ''0.05''))
              (take i [(''T'', ''bed/T.bed.gz''), (''B'', ''bed/B.bed.gz'')])
              (emit (RayInit 1) world_0)))) = (0, out, files)
       \<and> files (''out/'' @ fst ([(''T'', ''bed/T.bed.gz''), (''B'', ''bed/B.bed.gz'')] ! i) @
            ''_peaks.narrowPeak'') = Inr tb
       \<and> [(''T'', PyRanges (peaks_T\<lparr>labels := narrow_peak_columns\<rparr>)),
           (''B'', PyRanges (peaks_B\<lparr>labels := narrow_peak_columns\<rparr>))] ! i =
            (fst ([(''T'', ''bed/T.bed.gz''), (''B'', ''bed/B.bed.gz'')] ! i),
             PyRanges (tb\<lparr>labels := narrow_peak_columns\<rparr>))"
    by (rule conjunct2)
  have "\<exists>cmd out files tb.
         callpeak_cmd (call_T ''out/'') = Inr cmd
       \<and> macs2_two_groups cmd (csv_files (emit (RayInit 1) world_0)) = (0, out, files)
       \<and> files ''out/T_peaks.narrowPeak'' = Inr tb
       \<and> [(''T'', PyRanges (peaks_T\<lparr>labels := narrow_peak_columns\<rparr>)),
           (''B'', PyRanges (peaks_B\<lparr>labels := narrow_peak_columns\<rparr>))] ! 0 =
            (''T'', PyRanges (tb\<lparr>labels := narrow_peak_columns\<rparr>))"
    using all [rule_format, of 0] by (simp add: call_T_def)
  with res keys show ?thesis by simp
qed

subsection \<open>C7: The dictionaries returned\<close>

text \<open>
  Claim C7. When \<open>exportPseudoBulk\<close> returns, it returns two dictionaries whose keys are the
  group labels (the distinct values of the column, sorted): the first maps each group to
  \<open>bigwig_path + g + '.bw'\<close>, the second to \<open>bed_path + g + '.bed.gz'\<close>, and these are,
  group by group, the paths of the files the call has written.
\<close>

theorem exportPseudoBulk_returns_paths:
  assumes "exportPseudoBulk glob input_data variable chromsizes bed_path bigwig_path
             path_to_fragments n_cpu nb rd w = (Inr (bw_paths, bed_paths), w')"
  shows "\<exists>cd group_var.
           metadata_of glob input_data = Some cd \<and> loc_column cd variable = Inr group_var
         \<and> bw_paths = map (\<lambda>g. (g, bigwig_path @ g @ ''.bw'')) (group_labels group_var)
         \<and> bed_paths = map (\<lambda>g. (g, bed_path @ g @ ''.bed.gz'')) (group_labels group_var)
         \<and> map written_path (filter is_write (trace w')) =
             map written_path (filter is_write (trace w)) @
             concat (map (\<lambda>g. [bigwig_path @ g @ ''.bw'', bed_path @ g @ ''.bed.gz''])
                       (group_labels group_var))"
proof -
  from exportPseudoBulk_Inr [OF assms] obtain fragments_df w2 where
    w2: "filter is_write (trace w2) = filter is_write (trace w)" and
    cp: "create_pseudobulks (metadata_of glob input_data) fragments_df variable chromsizes
              bed_path bigwig_path n_cpu nb rd w2 = (Inr (bw_paths, bed_paths), w')"
    by blast
  from create_pseudobulks_Inr [OF cp] obtain cd group_var w3 where
    cd: "metadata_of glob input_data = Some cd" and
    gv: "loc_column cd variable = Inr group_var" and
    w3: "filter is_write (trace w3) = filter is_write (trace w2)" and
    rt: "run_tasks group_var (group_labels group_var) fragments_df chromsizes bed_path
                bigwig_path n_cpu nb rd w3 = (Inr (bw_paths, bed_paths), w')"
    by blast
  from run_tasks_Inr [OF rt distinct_group_labels] have
    bw: "bw_paths = map (\<lambda>g. (g, bigwig_path @ g @ ''.bw'')) (group_labels group_var)" and
    bed: "bed_paths = map (\<lambda>g. (g, bed_path @ g @ ''.bed.gz'')) (group_labels group_var)" and
    wr: "filter is_write (trace w') = filter is_write (trace w3) @
            concat (map (\<lambda>g. filter is_write
                           (task_events group_var (case fragments_df of None \<Rightarrow> [] | Some df \<Rightarrow> df)
                              chromsizes bigwig_path bed_path nb g)) (group_labels group_var))"
    by simp_all
  have "map written_path (filter is_write (trace w')) =
             map written_path (filter is_write (trace w)) @
             concat (map (\<lambda>g. [bigwig_path @ g @ ''.bw'', bed_path @ g @ ''.bed.gz''])
                       (group_labels group_var))"
    unfolding wr w3 w2 by (simp add: writes_task_events map_concat comp_def)
  with cd gv bw bed show ?thesis by blast
qed

text \<open>
  Claim C7, witness: two cells of two groups, one sample; the call returns the two
  dictionaries and has written the four files they name.
\<close>

theorem exportPseudoBulk_returns_paths_witness:
  "fst (exportPseudoBulk None (PdDataFrame cells_2) ''celltype'' [] ''bed/'' ''bw/''
          (PathDict [(''s1'', ''f1.tsv'')]) 1 True True world_0) =
     Inr ([(''B'', ''bw/B.bw''), (''T'', ''bw/T.bw'')],
          [(''B'', ''bed/B.bed.gz''), (''T'', ''bed/T.bed.gz'')])
   \<and> map written_path (filter is_write (trace (snd
        (exportPseudoBulk None (PdDataFrame cells_2) ''celltype'' [] ''bed/'' ''bw/''
          (PathDict [(''s1'', ''f1.tsv'')]) 1 True True world_0)))) =
     [''bw/B.bw'', ''bed/B.bed.gz'', ''bw/T.bw'', ''bed/T.bed.gz'']"
proof -
  let ?run = "exportPseudoBulk None (PdDataFrame cells_2) ''celltype'' [] ''bed/'' ''bw/''
          (PathDict [(''s1'', ''f1.tsv'')]) 1 True True world_0"
  have res: "fst ?run = Inr ([(''B'', ''bw/B.bw''), (''T'', ''bw/T.bw'')],
          [(''B'', ''bed/B.bed.gz''), (''T'', ''bed/T.bed.gz'')])"
    by code_simp
  then have run: "?run = (Inr ([(''B'', ''bw/B.bw''), (''T'', ''bw/T.bw'')],
          [(''B'', ''bed/B.bed.gz''), (''T'', ''bed/T.bed.gz'')]), snd ?run)"
    by (simp add: prod_eq_iff)
  from exportPseudoBulk_returns_paths [OF run] obtain cd group_var where
    cd: "metadata_of None (PdDataFrame cells_2) = Some cd" and
    gv: "loc_column cd ''celltype'' = Inr group_var" and
    wr: "map written_path (filter is_write (trace (snd ?run))) =
             map written_path (filter is_write (trace world_0)) @
             concat (map (\<lambda>g. [''bw/'' @ g @ ''.bw'', ''bed/'' @ g @ ''.bed.gz''])
                       (group_labels group_var))"
    by blast
  from cd have "cd = cells_2" by (simp add: metadata_of_def)
  with gv have "group_var = [(''AAA-s1'', ''T''), (''CCC-s1'', ''B'')]"
    by (simp add: cells_2_celltype)
  with wr have "map written_path (filter is_write (trace (snd ?run))) =
     [''bw/B.bw'', ''bed/B.bed.gz'', ''bw/T.bw'', ''bed/T.bed.gz'']"
    by (simp add: cells_2_groups world_0_def)
  with res show ?thesis by simp
qed

subsection \<open>C8: A cisTopic object as input\<close>

text \<open>
  Claim C8. With the name \<open>cisTopic_obj\<close> undefined, a cisTopic object as input ends the
  call with \<open>NameError\<close> at once: the world is as it was, nothing was logged, read or
  written.
\<close>

theorem cisTopicObject_input_raises:
  "exportPseudoBulk None (CisTopicObject obj) variable chromsizes bed_path bigwig_path
       path_to_fragments n_cpu nb rd w = (Inl (NameError ''cisTopic_obj''), w)"
  by (simp add: exportPseudoBulk_def get_fragments_file_def)

subsection \<open>C9: Errors that are only logged\<close>

text \<open>
  Claim C9. For a cell metadata frame without \<open>path_to_fragments\<close>, the call logs the error
  and goes on with lines 104-128 as they stand, \<open>fragments_df\<close> unassigned: its outcome is
  that of those lines. For a dictionary, the call logs one error for every key that is not
  among the suffixes of the index and goes on to read the fragments file. In both cases
  nothing is raised and nothing is returned at the point of the log line.
\<close>

theorem missing_fragments_only_logged:
  "exportPseudoBulk glob (PdDataFrame cd) variable chromsizes bed_path bigwig_path PathNone
       n_cpu nb rd w =
     create_pseudobulks (Some cd) None variable chromsizes bed_path bigwig_path n_cpu nb rd
       (emit (LogError ''Please, provide path_to_fragments.'') w)
   \<and> prefix (trace w @ [LogError ''Please, provide path_to_fragments.''])
        (trace (snd (exportPseudoBulk glob (PdDataFrame cd) variable chromsizes bed_path
                       bigwig_path PathNone n_cpu nb rd w)))
   \<and> (d \<noteq> [] \<and> distinct (map fst d) \<longrightarrow>
        prefix (trace w @ key_errors cd d @
                  [LogInfo (''Reading fragments from '' @ snd (last d)), ReadBed (snd (last d))])
          (trace (snd (exportPseudoBulk glob (PdDataFrame cd) variable chromsizes bed_path
                         bigwig_path (PathDict d) n_cpu nb rd w))))"
proof (intro conjI impI)
  show "exportPseudoBulk glob (PdDataFrame cd) variable chromsizes bed_path bigwig_path PathNone
       n_cpu nb rd w =
     create_pseudobulks (Some cd) None variable chromsizes bed_path bigwig_path n_cpu nb rd
       (emit (LogError ''Please, provide path_to_fragments.'') w)"
    by (rule exportPseudoBulk_no_paths)
next
  have "prefix (trace (emit (LogError ''Please, provide path_to_fragments.'') w))
     (trace (snd (create_pseudobulks (Some cd) None variable chromsizes bed_path bigwig_path
                    n_cpu nb rd (emit (LogError ''Please, provide path_to_fragments.'') w))))"
    by (rule create_pseudobulks_prefix)
  then show "prefix (trace w @ [LogError ''Please, provide path_to_fragments.''])
        (trace (snd (exportPseudoBulk glob (PdDataFrame cd) variable chromsizes bed_path
                       bigwig_path PathNone n_cpu nb rd w)))"
    by (simp add: exportPseudoBulk_no_paths emit_def)
next
  assume "d \<noteq> [] \<and> distinct (map fst d)"
  then have "d \<noteq> []" and "distinct (map fst d)" by simp_all
  then show "prefix (trace w @ key_errors cd d @
                  [LogInfo (''Reading fragments from '' @ snd (last d)), ReadBed (snd (last d))])
          (trace (snd (exportPseudoBulk glob (PdDataFrame cd) variable chromsizes bed_path
                         bigwig_path (PathDict d) n_cpu nb rd w)))"
    by (rule exportPseudoBulk_dict_prefix)
qed

text \<open>
  Claim C9, witness. Without \<open>path_to_fragments\<close> the call logs, makes the two folders and
  starts ray before it fails on the unassigned \<open>fragments_df\<close>; with the key \<open>s2\<close>, which
  no barcode of the index ends with, it logs, reads the file and returns.
\<close>

theorem missing_fragments_only_logged_witness:
  "fst (exportPseudoBulk None (PdDataFrame cells_2) ''celltype'' [] ''bed/'' ''bw/'' PathNone
          1 True True world_0) = Inl (NameError ''fragments_df'')
   \<and> trace (snd (exportPseudoBulk None (PdDataFrame cells_2) ''celltype'' [] ''bed/'' ''bw/''
          PathNone 1 True True world_0)) =
       [LogError ''Please, provide path_to_fragments.'', MakeDirs ''bed/'', MakeDirs ''bw/'',
        RayInit 1]
   \<and> [(''s2'', ''f1.tsv'')] \<noteq> [] \<and> distinct (map fst [(''s2'', ''f1.tsv'')])
   \<and> prefix
        [LogError (''Check that your cell suffixes match with the keys in '' @
                   ''your path_to_fragments dictionary''),
         LogInfo ''Reading fragments from f1.tsv'', ReadBed ''f1.tsv'']
        (trace (snd (exportPseudoBulk None (PdDataFrame cells_2) ''celltype'' [] ''bed/'' ''bw/''
                       (PathDict [(''s2'', ''f1.tsv'')]) 1 True True world_0)))
   \<and> fst (exportPseudoBulk None (PdDataFrame cells_2) ''celltype'' [] ''bed/'' ''bw/''
            (PathDict [(''s2'', ''f1.tsv'')]) 1 True True world_0) =
       Inr ([(''B'', ''bw/B.bw''), (''T'', ''bw/T.bw'')],
            [(''B'', ''bed/B.bed.gz''), (''T'', ''bed/T.bed.gz'')])"
proof -
  have none: "fst (exportPseudoBulk None (PdDataFrame cells_2) ''celltype'' [] ''bed/'' ''bw/'' PathNone
          1 True True world_0) = Inl (NameError ''fragments_df'')
   \<and> trace (snd (exportPseudoBulk None (PdDataFrame cells_2) ''celltype'' [] ''bed/'' ''bw/''
          PathNone 1 True True world_0)) =
       [LogError ''Please, provide path_to_fragments.'', MakeDirs ''bed/'', MakeDirs ''bw/'',
        RayInit 1]"
    by code_simp
  have keys: "key_errors cells_2 [(''s2'', ''f1.tsv'')] =
        [LogError (''Check that your cell suffixes match with the keys in '' @
                   ''your path_to_fragments dictionary'')]"
    by code_simp
  have res: "fst (exportPseudoBulk None (PdDataFrame cells_2) ''celltype'' [] ''bed/'' ''bw/''
            (PathDict [(''s2'', ''f1.tsv'')]) 1 True True world_0) =
       Inr ([(''B'', ''bw/B.bw''), (''T'', ''bw/T.bw'')],
            [(''B'', ''bed/B.bed.gz''), (''T'', ''bed/T.bed.gz'')])"
    by code_simp
  from missing_fragments_only_logged [of None cells_2 "''celltype''" "[]" "''bed/''" "''bw/''"
      1 True True world_0 "[(''s2'', ''f1.tsv'')]"]
  have "prefix
        [LogError (''Check that your cell suffixes match with the keys in '' @
                   ''your path_to_fragments dictionary''),
         LogInfo ''Reading fragments from f1.tsv'', ReadBed ''f1.tsv'']
        (trace (snd (exportPseudoBulk None (PdDataFrame cells_2) ''celltype'' [] ''bed/'' ''bw/''
                       (PathDict [(''s2'', ''f1.tsv'')]) 1 True True world_0)))"
    by (simp add: keys world_0_def)
  with none res show ?thesis by simp
qed

subsection \<open>C10: Barcode correction\<close>

text \<open>
  Claim C10. For a fragments file that reads as a non-empty table, lines 87-91 give every
  record the name \<open>f(Name) + '-' + sample_id\<close>, where \<open>f\<close> is \<open>rstrip("-1234567890")\<close> if
  the name of the first record holds a \<open>-\<close> and the identity if it does not; the table
  that \<open>exportPseudoBulk\<close> goes on with is this one, filtered by the index of the cell
  metadata. \<open>rstrip\<close> takes away the whole trailing run of characters of the set: what is
  left is empty or ends with a character outside the set.
\<close>

theorem barcode_rewrite:
  assumes "bed_files w path = Inr (first # rest)"
  shows "fst (barcode_correction sample_id (first # rest) w1) =
           Inr (map (\<lambda>x. x\<lparr>Name := (if CHR ''-'' \<in> set (Name first)
                                       then py_rstrip ''-1234567890'' (Name x) else Name x)
                                     @ ''-'' @ sample_id\<rparr>) (first # rest))
       \<and> fst (get_fragments (PdDataFrame cd) (PathDict [(sample_id, path)]) (Some cd)
                (Some (remdups (map (split_last CHR ''-'') (index cd)))) w) =
           Inr (Some (filter (\<lambda>x. Name x \<in> set (index cd))
             (map (\<lambda>x. x\<lparr>Name := (if CHR ''-'' \<in> set (Name first)
                                     then py_rstrip ''-1234567890'' (Name x) else Name x)
                                   @ ''-'' @ sample_id\<rparr>) (first # rest))))
       \<and> (\<exists>t. s = py_rstrip ''-1234567890'' s @ t
             \<and> set t \<subseteq> set ''-0123456789''
             \<and> (py_rstrip ''-1234567890'' s = []
                \<or> last (py_rstrip ''-1234567890'' s) \<notin>
                     set ''-0123456789''))"
proof (intro conjI)
  show "fst (barcode_correction sample_id (first # rest) w1) =
           Inr (map (\<lambda>x. x\<lparr>Name := (if CHR ''-'' \<in> set (Name first)
                                       then py_rstrip ''-1234567890'' (Name x) else Name x)
                                     @ ''-'' @ sample_id\<rparr>) (first # rest))"
    unfolding barcode_correction_eq by simp
next
  have d: "[(sample_id, path)] \<noteq> []" "distinct (map fst [(sample_id, path)])"
    by simp_all
  show "fst (get_fragments (PdDataFrame cd) (PathDict [(sample_id, path)]) (Some cd)
                (Some (remdups (map (split_last CHR ''-'') (index cd)))) w) =
           Inr (Some (filter (\<lambda>x. Name x \<in> set (index cd))
             (map (\<lambda>x. x\<lparr>Name := (if CHR ''-'' \<in> set (Name first)
                                     then py_rstrip ''-1234567890'' (Name x) else Name x)
                                   @ ''-'' @ sample_id\<rparr>) (first # rest))))"
    unfolding get_fragments_def frag_paths.case get_fragments_dict_DataFrame [OF d]
    using assms by (simp add: sample_barcodes_def)
next
  show "\<exists>t. s = py_rstrip ''-1234567890'' s @ t
             \<and> set t \<subseteq> set ''-0123456789''
             \<and> (py_rstrip ''-1234567890'' s = []
                \<or> last (py_rstrip ''-1234567890'' s) \<notin>
                     set ''-0123456789'')"
    using py_rstrip_all_trailing [of s "''-1234567890''"] unfolding trailing_chars .
qed

text \<open>
  Claim C10, witness: the first name of the file, \<open>AAA-1\<close>, holds a dash, so the three
  names lose their \<open>-1\<close> and take \<open>-s1\<close>; and \<open>rstrip\<close> turns \<open>AAA-1-22\<close> into \<open>AAA\<close>, not
  into \<open>AAA-1\<close>.
\<close>

theorem barcode_rewrite_witness:
  "bed_files world_0 ''f1.tsv'' = Inr fragments_f1
   \<and> map Name fragments_f1 = [''AAA-1'', ''CCC-1'', ''GGG-1'']
   \<and> fst (get_fragments (PdDataFrame cells_2) (PathDict [(''s1'', ''f1.tsv'')]) (Some cells_2)
           (Some (remdups (map (split_last CHR ''-'') (index cells_2)))) world_0) =
       Inr (Some [\<lparr>Chromosome = ''chr1'', Start = 1, End = 5, Name = ''AAA-s1'', Score = 1\<rparr>,
                  \<lparr>Chromosome = ''chr1'', Start = 7, End = 9, Name = ''CCC-s1'', Score = 2\<rparr>])
   \<and> py_rstrip ''-1234567890'' ''AAA-1-22'' = ''AAA''
   \<and> (\<exists>t. ''AAA-1-22'' = ''AAA'' @ t \<and> set t \<subseteq> set ''-0123456789'')"
proof -
  have f1: "bed_files world_0 ''f1.tsv'' = Inr fragments_f1"
    by (simp add: world_0_def)
  have split: "fragments_f1 =
      \<lparr>Chromosome = ''chr1'', Start = 1, End = 5, Name = ''AAA-1'', Score = 1\<rparr> #
      [\<lparr>Chromosome = ''chr1'', Start = 7, End = 9, Name = ''CCC-1'', Score = 2\<rparr>,
       \<lparr>Chromosome = ''chr2'', Start = 7, End = 9, Name = ''GGG-1'', Score = 2\<rparr>]"
    by (simp add: fragments_f1_def)
  have names: "map Name fragments_f1 = [''AAA-1'', ''CCC-1'', ''GGG-1'']"
    by (simp add: fragments_f1_def)
  have strip: "py_rstrip ''-1234567890'' ''AAA-1-22'' = ''AAA''"
    by code_simp
  have strip1: "py_rstrip ''-1234567890'' ''AAA-1'' = ''AAA''"
    "py_rstrip ''-1234567890'' ''CCC-1'' = ''CCC''" "py_rstrip ''-1234567890'' ''GGG-1'' = ''GGG''"
    by code_simp+
  note inst = barcode_rewrite [OF f1 [unfolded split], of "''s1''" world_0 cells_2 "''AAA-1-22''"]
  from inst have "fst (get_fragments (PdDataFrame cells_2) (PathDict [(''s1'', ''f1.tsv'')])
           (Some cells_2) (Some (remdups (map (split_last CHR ''-'') (index cells_2)))) world_0) =
       Inr (Some [\<lparr>Chromosome = ''chr1'', Start = 1, End = 5, Name = ''AAA-s1'', Score = 1\<rparr>,
                  \<lparr>Chromosome = ''chr1'', Start = 7, End = 9, Name = ''CCC-s1'', Score = 2\<rparr>])"
    by (simp add: strip1 cells_2_def)
  moreover from inst have "\<exists>t. ''AAA-1-22'' = ''AAA'' @ t \<and> set t \<subseteq> set ''-0123456789''"
    unfolding strip by blast
  ultimately show ?thesis using f1 names strip by blast
qed
end
